theory Spec2Isabelle
  imports Complex_Main "HOL-Library.Sublist" "HOL-Library.Multiset"
begin

section \<open>The link placement backend (backend/main.py)\<close>

text \<open>
  A shallow embedding of the request handlers of \<^verbatim>\<open>backend/main.py\<close>: the analyzer client
  \<^verbatim>\<open>analyze_with_claude\<close>, and the handlers \<^verbatim>\<open>create_project\<close>, \<^verbatim>\<open>upload_excel\<close>,
  \<^verbatim>\<open>analyze_article\<close> and \<^verbatim>\<open>export_results\<close>. Exceptions are values (\<open>Inl\<close> of a sum), the
  database is a record of two tables that every handler takes and returns, and everything
  the handlers obtain from outside the file (the JSON codec, pydantic's field validation,
  \<^verbatim>\<open>uuid4\<close>, the replies of the remote service) is a field of an environment record, so that
  every statement below holds for whatever these do.
\<close>

subsection \<open>JSON values and Python's operations on them\<close>

datatype json =
    JNull
  | JBool bool
  | JInt int
  | JFloat real
  | JStr string
  | JArr "json list"
  | JObj "(string \<times> json) list"

text \<open>
  The exceptions the handlers can meet. \<open>HTTPException_str c d e\<close> is the
  \<^verbatim>\<open>HTTPException(status_code=c, detail=f"{d}{str(e)}")\<close> of the two \<^verbatim>\<open>except Exception as e\<close>
  clauses: the detail is the text \<open>d\<close> followed by \<^verbatim>\<open>str(e)\<close>.
\<close>

datatype exn =
    JSONDecodeError
  | UnicodeDecodeError
  | RecursionError
  | KeyError string
  | IndexError
  | TypeError
  | AttributeError
  | ValidationError
  | RequestError
  | ReadError
  | HTTPException int string
  | HTTPException_str int string exn

definition and_then :: "exn + 'a \<Rightarrow> ('a \<Rightarrow> exn + 'b) \<Rightarrow> exn + 'b" where
  "and_then r f = (case r of Inl e \<Rightarrow> Inl e | Inr v \<Rightarrow> f v)"

text \<open>\<^verbatim>\<open>obj[key]\<close> for a string key: a dict looks the key up, everything else raises TypeError.\<close>

fun getitem :: "json \<Rightarrow> string \<Rightarrow> exn + json" where
  "getitem (JObj kw) k = (case map_of kw k of None \<Rightarrow> Inl (KeyError k) | Some v \<Rightarrow> Inr v)"
| "getitem _ k = Inl TypeError"

text \<open>
  \<^verbatim>\<open>obj[0]\<close>: the first element of a list, the first character of a string, KeyError on a
  dict decoded from JSON (its keys are strings), TypeError otherwise.
\<close>

fun getitem0 :: "json \<Rightarrow> exn + json" where
  "getitem0 (JArr []) = Inl IndexError"
| "getitem0 (JArr (x # xs)) = Inr x"
| "getitem0 (JStr []) = Inl IndexError"
| "getitem0 (JStr (c # cs)) = Inr (JStr [c])"
| "getitem0 (JObj kw) = Inl (KeyError ''0'')"
| "getitem0 _ = Inl TypeError"

text \<open>
  \<^verbatim>\<open>for opp in obj\<close>: a list gives its elements, a dict its keys, a string its characters;
  None, booleans and numbers are not iterable.
\<close>

fun py_iter :: "json \<Rightarrow> exn + json list" where
  "py_iter (JArr xs) = Inr xs"
| "py_iter (JObj kw) = Inr (map (\<lambda>kv. JStr (fst kv)) kw)"
| "py_iter (JStr s) = Inr (map (\<lambda>c. JStr [c]) s)"
| "py_iter _ = Inl TypeError"

text \<open>\<^verbatim>\<open>obj.get(key, default)\<close>.\<close>

fun dict_get :: "json \<Rightarrow> string \<Rightarrow> json \<Rightarrow> exn + json" where
  "dict_get (JObj kw) k d = Inr (case map_of kw k of None \<Rightarrow> d | Some v \<Rightarrow> v)"
| "dict_get _ k d = Inl AttributeError"

subsection \<open>The environment\<close>

text \<open>The outcome of \<^verbatim>\<open>client.post\<close>: a response with its status code and the bytes of
  its body, or an exception raised while sending (timeout, connection failure).\<close>

datatype reply = Response int string | Failed

text \<open>
  \<^item> \<open>response_json\<close> is \<^verbatim>\<open>response.json()\<close> on the bytes of the body: the decoded
    value, or the exception it raises. That is JSONDecodeError for a text that is not
    JSON, and another exception where the decoder fails otherwise: UnicodeDecodeError for
    bytes that are no text (a body cut inside a multi-byte character), RecursionError
    for a text nested too deeply.
  \<^item> \<open>json_loads\<close> is \<^verbatim>\<open>json.loads\<close> on a text, with the same outcomes.
    \<open>json_dumps\<close> is \<^verbatim>\<open>json.dumps\<close>.
  \<^item> \<open>validate_int\<close> and \<open>validate_str\<close> are pydantic's validation of a value for a field
    declared \<^verbatim>\<open>int\<close> or \<^verbatim>\<open>str\<close>; \<open>None\<close> stands for a rejected value.
  \<^item> \<open>uuid4 k\<close> is the \<open>k\<close>-th identifier drawn by \<^verbatim>\<open>str(uuid.uuid4())\<close>. A draw that repeats
    an identifier of the table, which the primary key would reject, is not modelled.
  \<^item> \<open>post k\<close> is the outcome of the \<open>k\<close>-th request sent to the remote service. The prompt
    that \<^verbatim>\<open>analyze_with_claude\<close> builds from the article, the custom prompt and the
    opportunity count only travels in that request, so it is not represented.
\<close>

record env =
  response_json :: "string \<Rightarrow> exn + json"
  json_loads :: "string \<Rightarrow> exn + json"
  json_dumps :: "json \<Rightarrow> string"
  validate_int :: "json \<Rightarrow> int option"
  validate_str :: "json \<Rightarrow> string option"
  uuid4 :: "nat \<Rightarrow> string"
  post :: "nat \<Rightarrow> reply"

subsection \<open>The pydantic models\<close>

record LinkOpportunity =
  id :: int
  rating :: int
  location :: string
  opp_context :: string
  old_text :: string
  new_text :: string
  reasoning :: string
  user_value :: string

record AnalysisResult =
  opportunities :: "LinkOpportunity list"
  processing_time :: real
  article_type :: string
  reader_intent :: string
  best_strategy :: string

record AnalysisRequest =
  article_id :: string
  html_content :: string
  custom_prompt :: "string option"
  opportunity_count :: "int option"

definition int_field :: "env \<Rightarrow> (string \<times> json) list \<Rightarrow> string \<Rightarrow> int option" where
  "int_field E kw k = Option.bind (map_of kw k) (validate_int E)"

definition str_field :: "env \<Rightarrow> (string \<times> json) list \<Rightarrow> string \<Rightarrow> string option" where
  "str_field E kw k = Option.bind (map_of kw k) (validate_str E)"

text \<open>
  \<^verbatim>\<open>LinkOpportunity(**opp)\<close>: \<^verbatim>\<open>**\<close> needs a mapping (TypeError otherwise); every field is
  required and validated, keys that are no field are ignored.
\<close>

definition LinkOpportunity_init :: "env \<Rightarrow> json \<Rightarrow> exn + LinkOpportunity" where
  "LinkOpportunity_init E opp =
     (case opp of
        JObj kw \<Rightarrow>
          (case Option.bind (int_field E kw ''id'') (\<lambda>i.
                Option.bind (int_field E kw ''rating'') (\<lambda>r.
                Option.bind (str_field E kw ''location'') (\<lambda>l.
                Option.bind (str_field E kw ''context'') (\<lambda>c.
                Option.bind (str_field E kw ''old_text'') (\<lambda>ot.
                Option.bind (str_field E kw ''new_text'') (\<lambda>nt.
                Option.bind (str_field E kw ''reasoning'') (\<lambda>re.
                Option.bind (str_field E kw ''user_value'') (\<lambda>uv.
                  Some \<lparr>id = i, rating = r, location = l, opp_context = c, old_text = ot,
                        new_text = nt, reasoning = re, user_value = uv\<rparr>))))))))
           of None \<Rightarrow> Inl ValidationError | Some v \<Rightarrow> Inr v)
      | _ \<Rightarrow> Inl TypeError)"

text \<open>The list comprehension \<^verbatim>\<open>[LinkOpportunity(**opp) for opp in ...]\<close>: the first
  exception ends it.\<close>

fun LinkOpportunity_list :: "env \<Rightarrow> json list \<Rightarrow> exn + LinkOpportunity list" where
  "LinkOpportunity_list E [] = Inr []"
| "LinkOpportunity_list E (opp # rest) =
     and_then (LinkOpportunity_init E opp) (\<lambda>v.
     and_then (LinkOpportunity_list E rest) (\<lambda>vs. Inr (v # vs)))"

text \<open>\<^verbatim>\<open>AnalysisResult(opportunities=..., processing_time=..., ...)\<close> with the three text
  fields validated as \<^verbatim>\<open>str\<close>.\<close>

definition AnalysisResult_init ::
  "env \<Rightarrow> LinkOpportunity list \<Rightarrow> real \<Rightarrow> json \<Rightarrow> json \<Rightarrow> json \<Rightarrow> exn + AnalysisResult" where
  "AnalysisResult_init E opps t a_type intent strategy =
     (case Option.bind (validate_str E a_type) (\<lambda>a.
           Option.bind (validate_str E intent) (\<lambda>i.
           Option.bind (validate_str E strategy) (\<lambda>s.
             Some \<lparr>opportunities = opps, processing_time = t, article_type = a,
                   reader_intent = i, best_strategy = s\<rparr>)))
      of None \<Rightarrow> Inl ValidationError | Some v \<Rightarrow> Inr v)"

text \<open>\<^verbatim>\<open>LinkOpportunity.dict()\<close> and \<^verbatim>\<open>AnalysisResult.dict()\<close>.\<close>

definition opportunity_dict :: "LinkOpportunity \<Rightarrow> json" where
  "opportunity_dict v =
     JObj [(''id'', JInt (id v)), (''rating'', JInt (rating v)),
           (''location'', JStr (location v)), (''context'', JStr (opp_context v)),
           (''old_text'', JStr (old_text v)), (''new_text'', JStr (new_text v)),
           (''reasoning'', JStr (reasoning v)), (''user_value'', JStr (user_value v))]"

definition result_dict :: "AnalysisResult \<Rightarrow> json" where
  "result_dict r =
     JObj [(''opportunities'', JArr (map opportunity_dict (opportunities r))),
           (''processing_time'', JFloat (processing_time r)),
           (''article_type'', JStr (article_type r)),
           (''reader_intent'', JStr (reader_intent r)),
           (''best_strategy'', JStr (best_strategy r))]"

subsection \<open>The analyzer client: analyze_with_claude\<close>

text \<open>The result built in the \<^verbatim>\<open>except json.JSONDecodeError\<close> clause.\<close>

definition fallback_opportunity :: "string \<Rightarrow> string \<Rightarrow> LinkOpportunity" where
  "fallback_opportunity to_url main_kw =
     \<lparr>id = 1,
      rating = 9,
      location = ''After ballistics comparison section'',
      opp_context = ''Reader just absorbed detailed performance data'',
      old_text = ''These ballistics show the performance characteristics of the cartridge.'',
      new_text = ''These ballistics show the performance characteristics of the cartridge. For a comprehensive comparison with another classic round, see our detailed <a href=''
                 @ [CHR 0x27] @ to_url @ [CHR 0x27] @ ''>'' @ main_kw @ ''</a> analysis.'',
      reasoning = ''Perfect contextual placement - readers examining ballistics are prime for comparison content'',
      user_value = ''Provides immediate access to comprehensive comparison data''\<rparr>"

definition fallback_result :: "string \<Rightarrow> string \<Rightarrow> AnalysisResult" where
  "fallback_result to_url main_kw =
     \<lparr>opportunities = [fallback_opportunity to_url main_kw],
      processing_time = 2.3,
      article_type = ''Ballistics Article'',
      reader_intent = ''Learning about cartridge performance'',
      best_strategy = ''Leverage post-data consumption moments''\<rparr>"

text \<open>\<^verbatim>\<open>json.loads(response_text)\<close>: the argument has to be a string.\<close>

definition loads_text :: "env \<Rightarrow> json \<Rightarrow> exn + json" where
  "loads_text E response_text =
     (case response_text of
        JStr s \<Rightarrow> json_loads E s
      | _ \<Rightarrow> Inl TypeError)"

text \<open>\<^verbatim>\<open>claude_response["content"][0]["text"]\<close>.\<close>

definition message_text :: "json \<Rightarrow> exn + json" where
  "message_text claude_response =
     and_then (getitem claude_response ''content'') (\<lambda>content.
     and_then (getitem0 content) (\<lambda>block. getitem block ''text''))"

text \<open>The \<^verbatim>\<open>return AnalysisResult(...)\<close> of the success branch, its arguments evaluated in
  the order they are written.\<close>

definition build_result :: "env \<Rightarrow> json \<Rightarrow> exn + AnalysisResult" where
  "build_result E analysis_data =
     and_then (getitem analysis_data ''opportunities'') (\<lambda>opps.
     and_then (py_iter opps) (\<lambda>items.
     and_then (LinkOpportunity_list E items) (\<lambda>vs.
     and_then (dict_get analysis_data ''article_type'' (JStr ''Article'')) (\<lambda>a_type.
     and_then (dict_get analysis_data ''reader_intent'' (JStr ''Learning'')) (\<lambda>intent.
     and_then (dict_get analysis_data ''best_strategy'' (JStr ''Strategic placement''))
       (\<lambda>strategy.
     AnalysisResult_init E vs 2.5 a_type intent strategy))))))"

text \<open>The branch \<^verbatim>\<open>if response.status_code == 200\<close>, from \<^verbatim>\<open>response.json()\<close> on.\<close>

definition parse_response :: "env \<Rightarrow> string \<Rightarrow> exn + AnalysisResult" where
  "parse_response E body =
     and_then (response_json E body) (\<lambda>claude_response.
     and_then (message_text claude_response) (\<lambda>response_text.
     and_then (loads_text E response_text) (build_result E)))"

text \<open>The body of the \<^verbatim>\<open>try\<close>.\<close>

definition request_analysis :: "env \<Rightarrow> reply \<Rightarrow> exn + AnalysisResult" where
  "request_analysis E r =
     (case r of
        Failed \<Rightarrow> Inl RequestError
      | Response status_code body \<Rightarrow>
          if status_code = 200 then parse_response E body
          else Inl (HTTPException 500 ''Claude API error''))"

text \<open>
  \<^verbatim>\<open>analyze_with_claude\<close>: one request is sent (the argument \<open>sent\<close> counts the requests sent
  before, the second component of the result those sent after), and only JSONDecodeError is
  caught.
\<close>

definition analyze_with_claude ::
  "env \<Rightarrow> nat \<Rightarrow> string \<Rightarrow> string \<Rightarrow> (exn + AnalysisResult) \<times> nat" where
  "analyze_with_claude E sent to_url main_kw =
     (let r = request_analysis E (post E sent)
      in if r = Inl JSONDecodeError then (Inr (fallback_result to_url main_kw), Suc sent)
         else (r, Suc sent))"

subsection \<open>The database\<close>

text \<open>
  The two tables, in insertion order, with the columns of the SQLAlchemy models
  (\<^verbatim>\<open>created_at\<close>, which no handler below reads, is left out), the number of identifiers
  drawn and the number of requests sent to the remote service so far. Queries and commits
  are taken to succeed: a failure of the database itself is not an outcome here.
\<close>

record Project =
  id :: string
  name :: string
  total_articles :: int
  completed_articles :: int
  status :: string

record Article =
  id :: string
  project_id :: string
  from_url :: string
  to_url :: string
  main_kw :: string
  html_content :: "string option"
  status :: string
  analysis_results :: "string option"
  processing_time :: "real option"
  order_index :: int

record world =
  projects :: "Project list"
  articles :: "Article list"
  uuids :: nat
  sent :: nat

definition empty_world :: world where
  "empty_world = \<lparr>projects = [], articles = [], uuids = 0, sent = 0\<rparr>"

text \<open>
  \<^verbatim>\<open>db.commit()\<close> after attributes of a loaded row were assigned: the row with that primary
  key is rewritten.
\<close>

definition update_article :: "world \<Rightarrow> string \<Rightarrow> (Article \<Rightarrow> Article) \<Rightarrow> world" where
  "update_article w key f =
     w\<lparr>articles := map (\<lambda>a. if Article.id a = key then f a else a) (articles w)\<rparr>"

definition update_project :: "world \<Rightarrow> string \<Rightarrow> (Project \<Rightarrow> Project) \<Rightarrow> world" where
  "update_project w key f =
     w\<lparr>projects := map (\<lambda>p. if Project.id p = key then f p else p) (projects w)\<rparr>"

text \<open>
  \<^verbatim>\<open>db.commit()\<close> after \<^verbatim>\<open>db.add\<close> of new articles: the rows are inserted in the order they
  were added, each with a fresh \<^verbatim>\<open>id\<close> from the column default.
\<close>

definition insert_articles :: "env \<Rightarrow> world \<Rightarrow> Article list \<Rightarrow> world" where
  "insert_articles E w new =
     w\<lparr>articles := articles w @
          map (\<lambda>ka. (snd ka)\<lparr>Article.id := uuid4 E (fst ka)\<rparr>)
              (zip [uuids w ..< uuids w + length new] new),
       uuids := uuids w + length new\<rparr>"

subsection \<open>create_project\<close>

definition create_project :: "env \<Rightarrow> world \<Rightarrow> string \<Rightarrow> Project \<times> world" where
  "create_project E w project_name =
     (let db_project = \<lparr>Project.id = uuid4 E (uuids w), name = project_name,
                         total_articles = 0, completed_articles = 0,
                         Project.status = ''created''\<rparr>
      in (db_project, w\<lparr>projects := projects w @ [db_project], uuids := Suc (uuids w)\<rparr>))"

subsection \<open>upload_excel\<close>

text \<open>
  What \<^verbatim>\<open>pd.read_excel\<close> returns: the column labels and the rows, each row with one cell
  per column. A cell is a text, or another value (a number, a date, an empty cell) given
  by the text \<^verbatim>\<open>str()\<close> makes of it.
\<close>

datatype cell = Text string | Other string

fun py_str :: "cell \<Rightarrow> string" where
  "py_str (Text s) = s"
| "py_str (Other s) = s"

record dataframe =
  columns :: "string list"
  rows :: "cell list list"

definition required_columns :: "string list" where
  "required_columns = [''From'', ''To'', ''Main KW'']"

text \<open>\<^verbatim>\<open>row[label]\<close> on a row of \<^verbatim>\<open>df.iterrows()\<close>.\<close>

definition row_get :: "string list \<Rightarrow> cell list \<Rightarrow> string \<Rightarrow> exn + cell" where
  "row_get cols row label =
     (case map_of (zip cols row) label of None \<Rightarrow> Inl (KeyError label) | Some v \<Rightarrow> Inr v)"

text \<open>
  The loop \<^verbatim>\<open>for index, row in df.iterrows()\<close>, from the row of index \<open>i\<close> on. The articles
  are only added to the session here; \<^verbatim>\<open>id\<close> is empty until the commit, the other columns
  take their defaults.
\<close>

fun new_articles :: "string \<Rightarrow> string list \<Rightarrow> nat \<Rightarrow> cell list list \<Rightarrow> exn + Article list" where
  "new_articles pid cols i [] = Inr []"
| "new_articles pid cols i (row # rest) =
     and_then (row_get cols row ''From'') (\<lambda>f.
     and_then (row_get cols row ''To'') (\<lambda>t.
     and_then (row_get cols row ''Main KW'') (\<lambda>k.
     and_then (new_articles pid cols (Suc i) rest) (\<lambda>more.
       Inr (\<lparr>Article.id = [], project_id = pid, from_url = py_str f, to_url = py_str t,
             main_kw = py_str k, html_content = None, Article.status = ''pending'',
             analysis_results = None, processing_time = None, order_index = int i\<rparr>
            # more)))))"

definition missing_columns_detail :: string where
  "missing_columns_detail =
     ''Excel must contain columns: ['' @ [CHR 0x27] @ ''From'' @ [CHR 0x27] @ '', ''
       @ [CHR 0x27] @ ''To'' @ [CHR 0x27] @ '', '' @ [CHR 0x27] @ ''Main KW'' @ [CHR 0x27]
       @ '']''"

text \<open>The body of the \<^verbatim>\<open>try\<close>, up to the loop; \<open>None\<close> is a file \<^verbatim>\<open>pd.read_excel\<close> rejects.\<close>

definition read_articles :: "string \<Rightarrow> dataframe option \<Rightarrow> exn + Article list" where
  "read_articles pid file =
     (case file of
        None \<Rightarrow> Inl ReadError
      | Some df \<Rightarrow>
          if \<not> list_all (\<lambda>col. col \<in> set (columns df)) required_columns
          then Inl (HTTPException 400 missing_columns_detail)
          else new_articles pid (columns df) 0 (rows df))"

text \<open>\<^verbatim>\<open>upload_excel\<close> returns \<^verbatim>\<open>total_articles\<close> (the message repeats the same number).\<close>

definition upload_excel ::
  "env \<Rightarrow> world \<Rightarrow> string \<Rightarrow> dataframe option \<Rightarrow> (exn + int) \<times> world" where
  "upload_excel E w pid file =
     (case find (\<lambda>p. Project.id p = pid) (projects w) of
        None \<Rightarrow> (Inl (HTTPException 404 ''Project not found''), w)
      | Some project \<Rightarrow>
          (case read_articles pid file of
             Inl e \<Rightarrow> (Inl (HTTPException_str 400 ''Error processing Excel: '' e), w)
           | Inr new \<Rightarrow>
               (let articles_created = int (length new)
                in (Inr articles_created,
                    update_project (insert_articles E w new) (Project.id project)
                      (\<lambda>p. p\<lparr>total_articles := articles_created,
                              Project.status := ''ready''\<rparr>)))))"

subsection \<open>analyze_article\<close>

text \<open>\<^verbatim>\<open>timedelta.total_seconds()\<close> of a difference given in microseconds.\<close>

definition total_seconds :: "int \<Rightarrow> real" where
  "total_seconds us = real_of_int us / 1000000"

text \<open>The first commit of the handler: the HTML is stored and the status is \<^verbatim>\<open>analyzing\<close>.\<close>

definition begin_analysis :: "world \<Rightarrow> string \<Rightarrow> string \<Rightarrow> world" where
  "begin_analysis w key html =
     update_article w key
       (\<lambda>a. a\<lparr>Article.html_content := Some html, Article.status := ''analyzing''\<rparr>)"

text \<open>The assignments to the article after the analyzer returned, not yet flushed.\<close>

definition store_results :: "env \<Rightarrow> AnalysisResult \<Rightarrow> int \<Rightarrow> Article \<Rightarrow> Article" where
  "store_results E result elapsed a =
     a\<lparr>analysis_results := Some (json_dumps E (result_dict result)),
       Article.status := ''completed'',
       Article.processing_time := Some (total_seconds elapsed)\<rparr>"

text \<open>
  The count query of the handler. The session is made with \<^verbatim>\<open>autoflush=False\<close>, so the
  query runs on the rows as they were last committed: the assignments of \<open>store_results\<close>
  reach the table only with the commit that follows.
\<close>

definition completed_count :: "world \<Rightarrow> string \<Rightarrow> nat" where
  "completed_count w pid =
     length (filter (\<lambda>a. Article.project_id a = pid \<and> Article.status a = ''completed'')
               (articles w))"

text \<open>
  \<open>start_time\<close> and \<open>end_time\<close> are the two readings of \<^verbatim>\<open>datetime.utcnow()\<close>, in
  microseconds. In the \<^verbatim>\<open>except\<close> clause the status becomes \<^verbatim>\<open>error\<close> and whatever else
  was assigned to the article before the exception is committed with it.
\<close>

definition analyze_article ::
  "env \<Rightarrow> world \<Rightarrow> string \<Rightarrow> AnalysisRequest \<Rightarrow> int \<Rightarrow> int \<Rightarrow> (exn + AnalysisResult) \<times> world" where
  "analyze_article E w key request start_time end_time =
     (case find (\<lambda>a. Article.id a = key) (articles w) of
        None \<Rightarrow> (Inl (HTTPException 404 ''Article not found''), w)
      | Some article \<Rightarrow>
          (let w1 = begin_analysis w (Article.id article) (AnalysisRequest.html_content request);
               (r, n) = analyze_with_claude E (sent w1) (Article.to_url article)
                          (Article.main_kw article);
               w2 = w1\<lparr>sent := n\<rparr>
           in case r of
                Inl e \<Rightarrow>
                  (Inl (HTTPException_str 500 ''Analysis failed: '' e),
                   update_article w2 (Article.id article) (\<lambda>a. a\<lparr>Article.status := ''error''\<rparr>))
              | Inr result \<Rightarrow>
                  (let stored = store_results E result (end_time - start_time)
                   in case find (\<lambda>p. Project.id p = Article.project_id article) (projects w2) of
                        None \<Rightarrow>
                          (Inl (HTTPException_str 500 ''Analysis failed: '' AttributeError),
                           update_article w2 (Article.id article)
                             (\<lambda>a. (stored a)\<lparr>Article.status := ''error''\<rparr>))
                      | Some project \<Rightarrow>
                          (Inr result,
                           update_project (update_article w2 (Article.id article) stored)
                             (Project.id project)
                             (\<lambda>p. p\<lparr>completed_articles :=
                                       int (completed_count w2 (Article.project_id article))\<rparr>)))))"

subsection \<open>export_results\<close>

record export_row =
  from_url :: string
  to_url :: string
  main_kw :: string
  rating :: json
  location :: json
  old_text :: json
  new_text :: json
  reasoning :: json

record export =
  results :: "export_row list"
  total_opportunities :: int

text \<open>The inner loop \<^verbatim>\<open>for opp in analysis["opportunities"]\<close>.\<close>

fun opportunity_rows :: "Article \<Rightarrow> json list \<Rightarrow> exn + export_row list" where
  "opportunity_rows a [] = Inr []"
| "opportunity_rows a (opp # rest) =
     and_then (getitem opp ''rating'') (\<lambda>ra.
     and_then (getitem opp ''location'') (\<lambda>lo.
     and_then (getitem opp ''old_text'') (\<lambda>ot.
     and_then (getitem opp ''new_text'') (\<lambda>nt.
     and_then (getitem opp ''reasoning'') (\<lambda>re.
     and_then (opportunity_rows a rest) (\<lambda>more.
       Inr (\<lparr>export_row.from_url = Article.from_url a, to_url = Article.to_url a,
             main_kw = Article.main_kw a, rating = ra, location = lo, old_text = ot,
             new_text = nt, reasoning = re\<rparr> # more)))))))"

text \<open>One turn of the outer loop; \<^verbatim>\<open>if article.analysis_results\<close> is false for NULL and for
  the empty string.\<close>

definition article_rows :: "env \<Rightarrow> Article \<Rightarrow> exn + export_row list" where
  "article_rows E a =
     (case Article.analysis_results a of
        None \<Rightarrow> Inr []
      | Some s \<Rightarrow>
          if s = [] then Inr []
          else and_then (json_loads E s) (\<lambda>analysis.
               and_then (getitem analysis ''opportunities'') (\<lambda>opps.
               and_then (py_iter opps) (opportunity_rows a))))"

fun export_data :: "env \<Rightarrow> Article list \<Rightarrow> exn + export_row list" where
  "export_data E [] = Inr []"
| "export_data E (a # rest) =
     and_then (article_rows E a) (\<lambda>rs.
     and_then (export_data E rest) (\<lambda>more. Inr (rs @ more)))"

text \<open>The query of the handler: the completed articles of the project, by \<^verbatim>\<open>order_index\<close>
  (articles with the same index stay in insertion order).\<close>

definition completed_articles_of :: "world \<Rightarrow> string \<Rightarrow> Article list" where
  "completed_articles_of w pid =
     sort_key Article.order_index
       (filter (\<lambda>a. Article.project_id a = pid \<and> Article.status a = ''completed'')
          (articles w))"

definition export_results :: "env \<Rightarrow> world \<Rightarrow> string \<Rightarrow> (exn + export) \<times> world" where
  "export_results E w pid =
     (case export_data E (completed_articles_of w pid) of
        Inl e \<Rightarrow> (Inl e, w)
      | Inr rs \<Rightarrow> (Inr \<lparr>results = rs, total_opportunities = int (length rs)\<rparr>, w))"

subsection \<open>Reachable states\<close>

text \<open>
  The states the handlers lead to from the empty database, the state between the two
  commits of \<^verbatim>\<open>analyze_article\<close> included.
\<close>

inductive reachable :: "env \<Rightarrow> world \<Rightarrow> bool" for E :: env where
  start: "reachable E empty_world"
| created: "reachable E w \<Longrightarrow> reachable E (snd (create_project E w project_name))"
| uploaded: "reachable E w \<Longrightarrow> reachable E (snd (upload_excel E w pid file))"
| analyzing: "reachable E w \<Longrightarrow> reachable E (begin_analysis w key html)"
| analyzed:
    "reachable E w \<Longrightarrow> reachable E (snd (analyze_article E w key request start_time end_time))"

subsection \<open>Notions used in the statements\<close>

text \<open>The export row an opportunity of an article stands for.\<close>

definition export_row_of :: "Article \<Rightarrow> LinkOpportunity \<Rightarrow> export_row" where
  "export_row_of a v =
     \<lparr>export_row.from_url = Article.from_url a, to_url = Article.to_url a,
      main_kw = Article.main_kw a, rating = JInt (LinkOpportunity.rating v),
      location = JStr (LinkOpportunity.location v),
      old_text = JStr (LinkOpportunity.old_text v),
      new_text = JStr (LinkOpportunity.new_text v),
      reasoning = JStr (LinkOpportunity.reasoning v)\<rparr>"

text \<open>A JSON value has the shape of an opportunity: an object whose eight fields hold an
  integer or a text (other keys may be present, in any order).\<close>

definition has_shape :: "LinkOpportunity \<Rightarrow> json \<Rightarrow> bool" where
  "has_shape v j =
     (case j of
        JObj kw \<Rightarrow>
          map_of kw ''id'' = Some (JInt (LinkOpportunity.id v)) \<and>
          map_of kw ''rating'' = Some (JInt (LinkOpportunity.rating v)) \<and>
          map_of kw ''location'' = Some (JStr (LinkOpportunity.location v)) \<and>
          map_of kw ''context'' = Some (JStr (opp_context v)) \<and>
          map_of kw ''old_text'' = Some (JStr (LinkOpportunity.old_text v)) \<and>
          map_of kw ''new_text'' = Some (JStr (LinkOpportunity.new_text v)) \<and>
          map_of kw ''reasoning'' = Some (JStr (LinkOpportunity.reasoning v)) \<and>
          map_of kw ''user_value'' = Some (JStr (user_value v))
      | _ \<Rightarrow> False)"

text \<open>
  Decoding the reply of the remote service raises JSONDecodeError: on the body of the
  response, or on the text the decoded body carries.
\<close>

definition json_decode_error :: "env \<Rightarrow> string \<Rightarrow> bool" where
  "json_decode_error E body =
     (case response_json E body of
        Inl e \<Rightarrow> e = JSONDecodeError
      | Inr claude_response \<Rightarrow>
          (case message_text claude_response of
             Inr (JStr t) \<Rightarrow> json_loads E t = Inl JSONDecodeError
           | _ \<Rightarrow> False))"

text \<open>The text an article takes from the cell of a row under a column label.\<close>

definition cell_text :: "string list \<Rightarrow> cell list \<Rightarrow> string \<Rightarrow> string option" where
  "cell_text cols row label =
     (case row_get cols row label of Inl e \<Rightarrow> None | Inr c \<Rightarrow> Some (py_str c))"

text \<open>An article is the pending article made from a row for a project.\<close>

definition made_from_row :: "string \<Rightarrow> string list \<Rightarrow> Article \<Rightarrow> cell list \<Rightarrow> bool" where
  "made_from_row pid cols a row =
     (Article.project_id a = pid \<and> Article.status a = ''pending'' \<and>
      cell_text cols row ''From'' = Some (Article.from_url a) \<and>
      cell_text cols row ''To'' = Some (Article.to_url a) \<and>
      cell_text cols row ''Main KW'' = Some (Article.main_kw a) \<and>
      Article.html_content a = None \<and> Article.analysis_results a = None \<and>
      Article.processing_time a = None)"

text \<open>An optional text field of the analysis: absent, or a text.\<close>

definition text_or_default :: "(string \<times> json) list \<Rightarrow> string \<Rightarrow> string \<Rightarrow> string option" where
  "text_or_default kw k d =
     (case map_of kw k of None \<Rightarrow> Some d | Some (JStr s) \<Rightarrow> Some s | Some _ \<Rightarrow> None)"

subsection \<open>Concrete inputs\<close>

text \<open>
  An environment to evaluate the handlers in: a validation that accepts exactly the JSON
  type of the field, a codec that knows the texts below and takes every other text for
  invalid JSON, and a given list of replies. The codec receives the body of a response as
  bytes and raises UnicodeDecodeError when they do not have the byte pattern of UTF-8.
\<close>

definition strict_int :: "json \<Rightarrow> int option" where
  "strict_int j = (case j of JInt n \<Rightarrow> Some n | _ \<Rightarrow> None)"

definition strict_str :: "json \<Rightarrow> string option" where
  "strict_str j = (case j of JStr s \<Rightarrow> Some s | _ \<Rightarrow> None)"

fun escaped :: "string \<Rightarrow> string" where
  "escaped [] = []"
| "escaped (c # cs) =
     (if c = CHR 0x22 \<or> c = CHR 0x5C then CHR 0x5C # c # escaped cs else c # escaped cs)"

text \<open>The body of a reply of the remote service whose only content block is the text.\<close>

definition envelope :: "string \<Rightarrow> string" where
  \<open>envelope t = ''{"content":[{"type":"text","text":"'' @ escaped t @ ''"}]}''\<close>

definition envelope_json :: "string \<Rightarrow> json" where
  "envelope_json t = JObj [(''content'', JArr [JObj [(''type'', JStr ''text''), (''text'', JStr t)]])]"

definition good_text :: string where
  \<open>good_text = ''{"opportunities":[{"id":1,"rating":12,"location":"intro","context":"c","old_text":"","new_text":"<p>kw</p>","reasoning":"r","user_value":"u"}],"article_type":"Guide"}''\<close>

definition good_opportunity :: LinkOpportunity where
  "good_opportunity =
     \<lparr>LinkOpportunity.id = 1, rating = 12, location = ''intro'', opp_context = ''c'',
      old_text = [], new_text = ''<p>kw</p>'', reasoning = ''r'', user_value = ''u''\<rparr>"

definition good_json :: json where
  "good_json =
     JObj [(''opportunities'', JArr [opportunity_dict good_opportunity]),
           (''article_type'', JStr ''Guide'')]"

definition good_result :: AnalysisResult where
  "good_result =
     \<lparr>opportunities = [good_opportunity], processing_time = 2.5, article_type = ''Guide'',
      reader_intent = ''Learning'', best_strategy = ''Strategic placement''\<rparr>"

definition good_stored :: string where
  \<open>good_stored = ''{"opportunities": [{"id": 1, "rating": 12, "location": "intro", "context": "c", "old_text": "", "new_text": "<p>kw</p>", "reasoning": "r", "user_value": "u"}], "processing_time": 2.5, "article_type": "Guide", "reader_intent": "Learning", "best_strategy": "Strategic placement"}''\<close>

definition prose_text :: string where
  "prose_text = ''Here are the opportunities I found.''"

definition html_body :: string where
  "html_body = ''<html>502 Bad Gateway</html>''"

text \<open>A body cut after the first of the two bytes of a character.\<close>

definition cut_body :: string where
  \<open>cut_body = ''{"content":[{"type":"text","text":"caf'' @ [CHR 0xC3]\<close>

definition continuation :: "char \<Rightarrow> bool" where
  "continuation c = (128 \<le> (of_char c :: nat) \<and> (of_char c :: nat) < 192)"

text \<open>The bytes form UTF-8 sequences, \<open>pending\<close> continuation bytes being due first.\<close>

fun utf8_scan :: "nat \<Rightarrow> string \<Rightarrow> bool" where
  "utf8_scan pending [] = (pending = 0)"
| "utf8_scan 0 (c # cs) =
     (if (of_char c :: nat) < 128 then utf8_scan 0 cs
      else if 194 \<le> (of_char c :: nat) \<and> (of_char c :: nat) < 224 then utf8_scan (Suc 0) cs
      else if 224 \<le> (of_char c :: nat) \<and> (of_char c :: nat) < 240
        then utf8_scan (Suc (Suc 0)) cs
      else if 240 \<le> (of_char c :: nat) \<and> (of_char c :: nat) < 245
        then utf8_scan (Suc (Suc (Suc 0))) cs
      else False)"
| "utf8_scan (Suc k) (c # cs) = (continuation c \<and> utf8_scan k cs)"

definition sample_loads :: "string \<Rightarrow> exn + json" where
  "sample_loads t =
     (case map_of [(''{}'', JObj []),
                   (good_text, good_json),
                   (good_stored, result_dict good_result)] t of
        None \<Rightarrow> Inl JSONDecodeError
      | Some v \<Rightarrow> Inr v)"

definition sample_response_json :: "string \<Rightarrow> exn + json" where
  "sample_response_json body =
     (if \<not> utf8_scan 0 body then Inl UnicodeDecodeError
      else case map_of [(envelope ''{}'', envelope_json ''{}''),
                        (envelope good_text, envelope_json good_text),
                        (envelope prose_text, envelope_json prose_text)] body of
             None \<Rightarrow> Inl JSONDecodeError
           | Some v \<Rightarrow> Inr v)"

definition sample_dumps :: "json \<Rightarrow> string" where
  "sample_dumps j = (if j = result_dict good_result then good_stored else ''null'')"

definition sample_uuid4 :: "nat \<Rightarrow> string" where
  "sample_uuid4 k = ''id'' @ replicate k (CHR ''+'')"

definition sample_env :: "reply list \<Rightarrow> env" where
  "sample_env replies =
     \<lparr>response_json = sample_response_json, json_loads = sample_loads,
      json_dumps = sample_dumps, validate_int = strict_int,
      validate_str = strict_str, uuid4 = sample_uuid4,
      post = (\<lambda>k. if k < length replies then replies ! k else Failed)\<rparr>"

definition good_reply :: reply where
  "good_reply = Response 200 (envelope good_text)"

definition sample_frame :: dataframe where
  "sample_frame =
     \<lparr>columns = [''From'', ''To'', ''Main KW'', ''Notes''],
      rows = [[Text ''/blog/a'', Text ''/guide/t'', Text ''kw one'', Other ''nan''],
              [Text ''/blog/b'', Text ''/guide/t'', Other ''243'', Text ''n'']]\<rparr>"

definition short_frame :: dataframe where
  "short_frame = \<lparr>columns = [''From'', ''To''], rows = [[Text ''/blog/a'', Text ''/guide/t'']]\<rparr>"

definition sample_request :: AnalysisRequest where
  "sample_request =
     \<lparr>article_id = ''id+'', html_content = ''<p>text</p>'', custom_prompt = None,
      opportunity_count = None\<rparr>"

text \<open>A project with two uploaded articles, and the states the analysis takes them to.\<close>

definition row_a :: Article where
  "row_a =
     \<lparr>Article.id = ''id+'', project_id = ''id'', from_url = ''/blog/a'', to_url = ''/guide/t'',
      main_kw = ''kw one'', html_content = None, Article.status = ''pending'',
      analysis_results = None, processing_time = None, order_index = 0\<rparr>"

definition row_b :: Article where
  "row_b =
     \<lparr>Article.id = ''id++'', project_id = ''id'', from_url = ''/blog/b'', to_url = ''/guide/t'',
      main_kw = ''243'', html_content = None, Article.status = ''pending'',
      analysis_results = None, processing_time = None, order_index = 1\<rparr>"

definition analysed :: "string \<Rightarrow> Article \<Rightarrow> Article" where
  "analysed st a =
     a\<lparr>Article.html_content := Some ''<p>text</p>'', Article.status := st,
       analysis_results := Some good_stored, Article.processing_time := Some 1.7\<rparr>"

definition demo_project :: "int \<Rightarrow> Project" where
  "demo_project c =
     \<lparr>Project.id = ''id'', name = ''demo'', total_articles = 2, completed_articles = c,
      Project.status = ''ready''\<rparr>"

definition demo_world :: "int \<Rightarrow> Article \<Rightarrow> Article \<Rightarrow> nat \<Rightarrow> world" where
  "demo_world c a b n = \<lparr>projects = [demo_project c], articles = [a, b], uuids = 3, sent = n\<rparr>"

definition run_upload :: "env \<Rightarrow> world" where
  "run_upload E =
     snd (upload_excel E (snd (create_project E empty_world ''demo'')) ''id''
            (Some sample_frame))"

definition analyse :: "env \<Rightarrow> world \<Rightarrow> string \<Rightarrow> world" where
  "analyse E w key = snd (analyze_article E w key sample_request 0 1700000)"

definition rerun_env :: env where
  "rerun_env = sample_env [good_reply, Response 500 []]"

definition first_run :: world where
  "first_run = analyse rerun_env (run_upload rerun_env) ''id+''"

definition failed_rerun :: world where
  "failed_rerun = analyse rerun_env first_run ''id+''"

section \<open>Properties\<close>

subsection \<open>Sequencing and the concrete environment\<close>

lemma and_then_Inl [simp]: "and_then (Inl e) f = Inl e"
  by (simp add: and_then_def)

lemma and_then_Inr [simp]: "and_then (Inr v) f = f v"
  by (simp add: and_then_def)

lemma and_then_eq_Inl:
  "and_then r f = Inl e \<longleftrightarrow> r = Inl e \<or> (\<exists>v. r = Inr v \<and> f v = Inl e)"
  by (cases r) simp_all

lemma and_then_eq_Inr:
  "and_then r f = Inr y \<longleftrightarrow> (\<exists>v. r = Inr v \<and> f v = Inr y)"
  by (cases r) simp_all

lemmas text_defs = envelope_def good_text_def good_stored_def prose_text_def html_body_def



lemma sample_loads_good: "sample_loads good_text = Inr good_json"
  by (simp add: sample_loads_def text_defs)

lemma sample_loads_stored: "sample_loads good_stored = Inr (result_dict good_result)"
  by (simp add: sample_loads_def text_defs)

lemma utf8_scan_ascii: "list_all (\<lambda>c. (of_char c :: nat) < 128) s \<Longrightarrow> utf8_scan 0 s"
  by (induction s) simp_all

lemma ascii_escaped:
  "list_all (\<lambda>c. (of_char c :: nat) < 128) s \<Longrightarrow>
     list_all (\<lambda>c. (of_char c :: nat) < 128) (escaped s)"
  by (induction s) simp_all

lemma utf8_envelope:
  "list_all (\<lambda>c. (of_char c :: nat) < 128) t \<Longrightarrow> utf8_scan 0 (envelope t)"
  by (rule utf8_scan_ascii) (simp add: envelope_def ascii_escaped)


lemma sample_response_cut: "sample_response_json cut_body = Inl UnicodeDecodeError"
  by (simp add: sample_response_json_def cut_body_def continuation_def)



lemma sample_response_good:
  "sample_response_json (envelope good_text) = Inr (envelope_json good_text)"
proof -
  have "utf8_scan 0 (envelope good_text)"
    by (rule utf8_envelope) (simp add: good_text_def)
  then show ?thesis
    by (simp add: sample_response_json_def) (simp add: text_defs)
qed

lemma message_text_envelope [simp]: "message_text (envelope_json t) = Inr (JStr t)"
  by (simp add: message_text_def envelope_json_def)

lemma sample_env_simps [simp]:
  "response_json (sample_env rs) = sample_response_json"
  "json_loads (sample_env rs) = sample_loads"
  "json_dumps (sample_env rs) = sample_dumps"
  "validate_int (sample_env rs) = strict_int"
  "validate_str (sample_env rs) = strict_str"
  "uuid4 (sample_env rs) = sample_uuid4"
  "post (sample_env rs) k = (if k < length rs then rs ! k else Failed)"
  by (simp_all add: sample_env_def)

subsection \<open>The analyzer client\<close>




lemma fallback_time [simp]: "AnalysisResult.processing_time (fallback_result url kw) = 2.3"
  by (simp add: fallback_result_def)

text \<open>JSONDecodeError comes from the two calls of the decoder and from nowhere else.\<close>

lemma loads_text_decode_error:
  "loads_text E v = Inl JSONDecodeError \<longleftrightarrow>
     (\<exists>t. v = JStr t \<and> json_loads E t = Inl JSONDecodeError)"
  by (cases v) (auto simp: loads_text_def)

lemma getitem_no_decode_error [simp]: "getitem j k \<noteq> Inl JSONDecodeError"
  by (cases j) (auto split: option.splits)

lemma getitem0_no_decode_error [simp]: "getitem0 j \<noteq> Inl JSONDecodeError"
  by (cases j rule: getitem0.cases) auto

lemma py_iter_no_decode_error [simp]: "py_iter j \<noteq> Inl JSONDecodeError"
  by (cases j) auto

lemma dict_get_no_decode_error [simp]: "dict_get j k d \<noteq> Inl JSONDecodeError"
  by (cases j) auto

lemma message_text_no_decode_error [simp]: "message_text j \<noteq> Inl JSONDecodeError"
  by (auto simp: message_text_def and_then_eq_Inl)

lemma LinkOpportunity_init_no_decode_error [simp]:
  "LinkOpportunity_init E j \<noteq> Inl JSONDecodeError"
  by (cases j) (auto simp: LinkOpportunity_init_def split: option.splits)

lemma LinkOpportunity_list_no_decode_error [simp]:
  "LinkOpportunity_list E js \<noteq> Inl JSONDecodeError"
  by (induction js) (auto simp: and_then_eq_Inl)

lemma AnalysisResult_init_no_decode_error [simp]:
  "AnalysisResult_init E vs t a i s \<noteq> Inl JSONDecodeError"
  by (auto simp: AnalysisResult_init_def split: option.splits)

lemma AnalysisResult_init_time:
  "AnalysisResult_init E vs t a i s = Inr r \<Longrightarrow> AnalysisResult.processing_time r = t"
  by (auto simp: AnalysisResult_init_def split: option.splits Option.bind_splits)

lemma build_result_no_decode_error [simp]: "build_result E d \<noteq> Inl JSONDecodeError"
  by (auto simp: build_result_def and_then_eq_Inl)

lemma build_result_time:
  "build_result E d = Inr r \<Longrightarrow> AnalysisResult.processing_time r = 2.5"
  by (auto simp: build_result_def and_then_eq_Inr dest: AnalysisResult_init_time)

lemma parse_response_decode_error:
  "parse_response E body = Inl JSONDecodeError \<longleftrightarrow> json_decode_error E body"
  by (auto simp: parse_response_def json_decode_error_def and_then_eq_Inl
      loads_text_decode_error split: sum.splits json.splits)

lemma parse_response_time:
  "parse_response E body = Inr r \<Longrightarrow> AnalysisResult.processing_time r = 2.5"
  by (auto simp: parse_response_def and_then_eq_Inr dest: build_result_time)

lemma request_analysis_200 [simp]:
  "request_analysis E (Response 200 body) = parse_response E body"
  by (simp add: request_analysis_def)


lemma analyze_with_claude_other_error:
  assumes "post E n = Response 200 body" and "response_json E body = Inl e"
    and "e \<noteq> JSONDecodeError"
  shows "analyze_with_claude E n url kw = (Inl e, Suc n)"
  using assms by (simp add: analyze_with_claude_def parse_response_def)

lemma parse_response_decoded:
  assumes "response_json E body = Inr cr" and "message_text cr = Inr (JStr t)"
    and "json_loads E t = Inr d"
  shows "parse_response E body = build_result E d"
  using assms by (simp add: parse_response_def loads_text_def)

lemma analyze_with_claude_decoded:
  assumes "post E n = Response 200 body" and "response_json E body = Inr cr"
    and "message_text cr = Inr (JStr t)" and "json_loads E t = Inr d"
  shows "analyze_with_claude E n url kw = (build_result E d, Suc n)"
  using assms by (simp add: analyze_with_claude_def parse_response_decoded)




text \<open>
  C1 does not hold of the client. The service answers with status 200 and a body cut
  inside a two-byte character, so a body that is not valid JSON: decoding it raises
  UnicodeDecodeError, which \<^verbatim>\<open>except json.JSONDecodeError\<close> does not catch, and the caller
  receives the exception instead of the fallback result.
\<close>

theorem cut_body_escapes_fallback:
  "analyze_with_claude (sample_env [Response 200 cut_body]) 0 ''/guide/t'' ''kw one''
     = (Inl UnicodeDecodeError, Suc 0)"
  by (rule analyze_with_claude_other_error [where body = cut_body])
     (simp_all add: sample_response_cut)




lemma LinkOpportunity_init_has_shape:
  assumes "\<And>k. validate_int E (JInt k) = Some k" and "\<And>x. validate_str E (JStr x) = Some x"
    and "has_shape v j"
  shows "LinkOpportunity_init E j = Inr v"
  using assms
  by (cases j) (simp_all add: has_shape_def LinkOpportunity_init_def int_field_def str_field_def)

lemma LinkOpportunity_list_has_shape:
  assumes "\<And>k. validate_int E (JInt k) = Some k" and "\<And>x. validate_str E (JStr x) = Some x"
    and "list_all2 has_shape vs js"
  shows "LinkOpportunity_list E js = Inr vs"
  using assms(3)
  by (induction vs js rule: list_all2_induct)
     (simp_all add: LinkOpportunity_init_has_shape [OF assms(1,2)])

lemma validate_text_or_default:
  assumes "\<And>x. validate_str E (JStr x) = Some x" and "text_or_default d k dflt = Some a"
  shows "validate_str E (case map_of d k of None \<Rightarrow> JStr dflt | Some v \<Rightarrow> v) = Some a"
  using assms by (auto simp: text_or_default_def split: option.splits json.splits)

text \<open>
  C9. When the reply is valid JSON of the expected shape (every element of
  \<^verbatim>\<open>opportunities\<close> is an object with the eight fields, the three optional texts are absent
  or texts), and the validation accepts an integer for an \<^verbatim>\<open>int\<close> field and a text for a
  \<^verbatim>\<open>str\<close> field as they are, the result holds exactly the opportunities of the reply, in
  their order, with every field as it was sent: no rating is checked against a range.
\<close>

theorem well_formed_reply_preserved:
  assumes "post E n = Response 200 body"
    and "response_json E body = Inr cr" and "message_text cr = Inr (JStr t)"
    and "json_loads E t = Inr (JObj d)"
    and "map_of d ''opportunities'' = Some (JArr js)" and "list_all2 has_shape vs js"
    and "text_or_default d ''article_type'' ''Article'' = Some a"
    and "text_or_default d ''reader_intent'' ''Learning'' = Some i"
    and "text_or_default d ''best_strategy'' ''Strategic placement'' = Some s"
    and "\<And>k. validate_int E (JInt k) = Some k" and "\<And>x. validate_str E (JStr x) = Some x"
  shows "analyze_with_claude E n url kw =
           (Inr \<lparr>opportunities = vs, processing_time = 2.5, article_type = a,
                 reader_intent = i, best_strategy = s\<rparr>, Suc n)"
proof -
  have "LinkOpportunity_list E js = Inr vs"
    using assms(10,11,6) by (rule LinkOpportunity_list_has_shape)
  then have "build_result E (JObj d) =
      Inr \<lparr>opportunities = vs, processing_time = 2.5, article_type = a,
                 reader_intent = i, best_strategy = s\<rparr>"
    using assms(5) validate_text_or_default [OF assms(11) assms(7)]
      validate_text_or_default [OF assms(11) assms(8)]
      validate_text_or_default [OF assms(11) assms(9)]
    by (simp add: build_result_def AnalysisResult_init_def)
  with assms(1-4) show ?thesis
    by (simp add: analyze_with_claude_decoded)
qed

text \<open>The theorem at a reply with one opportunity, of rating 12.\<close>

theorem well_formed_reply_preserved_witness:
  "has_shape good_opportunity (opportunity_dict good_opportunity) \<and>
   LinkOpportunity.rating good_opportunity = 12 \<and>
   analyze_with_claude (sample_env [good_reply]) 0 ''/guide/t'' ''kw one'' =
     (Inr \<lparr>opportunities = [good_opportunity], processing_time = 2.5, article_type = ''Guide'',
           reader_intent = ''Learning'', best_strategy = ''Strategic placement''\<rparr>, Suc 0)"
proof -
  let ?E = "sample_env [good_reply]"
  have shape: "has_shape good_opportunity (opportunity_dict good_opportunity)"
    by (simp add: has_shape_def opportunity_dict_def)
  have "analyze_with_claude ?E 0 ''/guide/t'' ''kw one'' =
     (Inr \<lparr>opportunities = [good_opportunity], processing_time = 2.5, article_type = ''Guide'',
           reader_intent = ''Learning'', best_strategy = ''Strategic placement''\<rparr>, Suc 0)"
  proof (rule well_formed_reply_preserved)
    show "post ?E 0 = Response 200 (envelope good_text)"
      by (simp add: good_reply_def)
    show "response_json ?E (envelope good_text) = Inr (envelope_json good_text)"
      by (simp add: sample_response_good)
    show "message_text (envelope_json good_text) = Inr (JStr good_text)"
      by simp
    show "json_loads ?E good_text =
        Inr (JObj [(''opportunities'', JArr [opportunity_dict good_opportunity]),
           (''article_type'', JStr ''Guide'')])"
      by (simp add: sample_loads_good good_json_def)
    show "map_of [(''opportunities'', JArr [opportunity_dict good_opportunity]),
           (''article_type'', JStr ''Guide'')] ''opportunities''
        = Some (JArr [opportunity_dict good_opportunity])"
      by simp
    show "list_all2 has_shape [good_opportunity] [opportunity_dict good_opportunity]"
      using shape by simp
    show "text_or_default [(''opportunities'', JArr [opportunity_dict good_opportunity]),
           (''article_type'', JStr ''Guide'')] ''article_type'' ''Article'' = Some ''Guide''"
      by (simp add: text_or_default_def)
    show "text_or_default [(''opportunities'', JArr [opportunity_dict good_opportunity]),
           (''article_type'', JStr ''Guide'')] ''reader_intent'' ''Learning'' = Some ''Learning''"
      by (simp add: text_or_default_def)
    show "text_or_default [(''opportunities'', JArr [opportunity_dict good_opportunity]),
           (''article_type'', JStr ''Guide'')] ''best_strategy'' ''Strategic placement''
         = Some ''Strategic placement''"
      by (simp add: text_or_default_def)
    show "\<And>k. validate_int ?E (JInt k) = Some k"
      by (simp add: strict_int_def)
    show "\<And>x. validate_str ?E (JStr x) = Some x"
      by (simp add: strict_str_def)
  qed
  with shape show ?thesis by (simp add: good_opportunity_def)
qed

subsection \<open>The handlers on the database\<close>

lemma articles_update_article:
  "articles (update_article w key f) =
     map (\<lambda>a. if Article.id a = key then f a else a) (articles w)"
  by (simp add: update_article_def)

lemma update_article_simps [simp]:
  "projects (update_article w key f) = projects w"
  "uuids (update_article w key f) = uuids w"
  "sent (update_article w key f) = sent w"
  by (simp_all add: update_article_def)

lemma projects_update_project:
  "projects (update_project w key f) =
     map (\<lambda>p. if Project.id p = key then f p else p) (projects w)"
  by (simp add: update_project_def)

lemma update_project_simps [simp]:
  "articles (update_project w key f) = articles w"
  "uuids (update_project w key f) = uuids w"
  "sent (update_project w key f) = sent w"
  by (simp_all add: update_project_def)

lemma begin_analysis_simps [simp]:
  "projects (begin_analysis w key html) = projects w"
  "uuids (begin_analysis w key html) = uuids w"
  "sent (begin_analysis w key html) = sent w"
  by (simp_all add: begin_analysis_def)

lemma find_article_id:
  "find (\<lambda>a. Article.id a = key) xs = Some a \<Longrightarrow> Article.id a = key"
  by (auto simp: find_Some_iff)

lemma find_project_id:
  "find (\<lambda>p. Project.id p = key) xs = Some p \<Longrightarrow> Project.id p = key"
  by (auto simp: find_Some_iff)

lemma find_updated_article:
  assumes "\<And>a. Article.id (f a) = Article.id a"
  shows "find (\<lambda>a. Article.id a = key) (map (\<lambda>a. if Article.id a = key then f a else a) xs)
           = map_option f (find (\<lambda>a. Article.id a = key) xs)"
  by (induction xs) (auto simp: assms)

lemma find_update_article:
  assumes "\<And>a. Article.id (f a) = Article.id a"
  shows "find (\<lambda>a. Article.id a = key) (articles (update_article w key f))
           = map_option f (find (\<lambda>a. Article.id a = key) (articles w))"
  by (simp add: articles_update_article find_updated_article assms)

lemma store_results_id [simp]: "Article.id (store_results E r d a) = Article.id a"
  by (simp add: store_results_def)

lemma find_begin_analysis:
  "find (\<lambda>a. Article.id a = key) (articles (begin_analysis w key html)) =
     map_option (\<lambda>a. a\<lparr>Article.html_content := Some html, Article.status := ''analyzing''\<rparr>)
       (find (\<lambda>a. Article.id a = key) (articles w))"
  by (simp add: begin_analysis_def find_update_article)

lemma completed_count_sent [simp]:
  "completed_count (w\<lparr>sent := n\<rparr>) pid = completed_count w pid"
  by (simp add: completed_count_def)

text \<open>The two ends of analyze_article.\<close>

lemma analyze_article_failure:
  assumes "find (\<lambda>a. Article.id a = key) (articles w) = Some article"
    and "analyze_with_claude E (sent w) (Article.to_url article) (Article.main_kw article)
           = (Inl e, n)"
  shows "analyze_article E w key request t0 t1 =
           (Inl (HTTPException_str 500 ''Analysis failed: '' e),
            update_article
              ((begin_analysis w key (AnalysisRequest.html_content request))\<lparr>sent := n\<rparr>) key
              (\<lambda>a. a\<lparr>Article.status := ''error''\<rparr>))"
  using assms find_article_id [OF assms(1)]
  by (simp add: analyze_article_def)

lemma analyze_article_success:
  assumes "find (\<lambda>a. Article.id a = key) (articles w) = Some article"
    and "analyze_with_claude E (sent w) (Article.to_url article) (Article.main_kw article)
           = (Inr result, n)"
    and "find (\<lambda>p. Project.id p = Article.project_id article) (projects w) = Some project"
  shows "analyze_article E w key request t0 t1 =
           (Inr result,
            update_project
              (update_article
                 ((begin_analysis w key (AnalysisRequest.html_content request))\<lparr>sent := n\<rparr>) key
                 (store_results E result (t1 - t0)))
              (Article.project_id article)
              (\<lambda>p. p\<lparr>completed_articles :=
                        int (completed_count
                               (begin_analysis w key (AnalysisRequest.html_content request))
                               (Article.project_id article))\<rparr>))"
  using assms find_article_id [OF assms(1)] find_project_id [OF assms(3)]
  by (simp add: analyze_article_def Let_def)

lemma analyze_article_no_project:
  assumes "find (\<lambda>a. Article.id a = key) (articles w) = Some article"
    and "analyze_with_claude E (sent w) (Article.to_url article) (Article.main_kw article)
           = (Inr result, n)"
    and "find (\<lambda>p. Project.id p = Article.project_id article) (projects w) = None"
  shows "analyze_article E w key request t0 t1 =
           (Inl (HTTPException_str 500 ''Analysis failed: '' AttributeError),
            update_article
                 ((begin_analysis w key (AnalysisRequest.html_content request))\<lparr>sent := n\<rparr>) key
                 (\<lambda>a. (store_results E result (t1 - t0) a)\<lparr>Article.status := ''error''\<rparr>))"
  using assms find_article_id [OF assms(1)]
  by (simp add: analyze_article_def)

lemma analyze_article_not_found:
  assumes "find (\<lambda>a. Article.id a = key) (articles w) = None"
  shows "analyze_article E w key request t0 t1 = (Inl (HTTPException 404 ''Article not found''), w)"
  using assms by (simp add: analyze_article_def)

lemma analyze_with_claude_sent: "snd (analyze_with_claude E n url kw) = Suc n"
  by (simp add: analyze_with_claude_def Let_def)

lemma analyze_with_claude_not_200:
  assumes "post E n = Response code body" and "code \<noteq> 200"
  shows "analyze_with_claude E n url kw = (Inl (HTTPException 500 ''Claude API error''), Suc n)"
  using assms by (simp add: analyze_with_claude_def request_analysis_def)

text \<open>
  C5. When the remote service answers the request of \<^verbatim>\<open>analyze_article\<close> with a status
  other than 200, exactly one request has been sent (there is no second attempt), the
  article is left in status \<^verbatim>\<open>error\<close>, and the caller receives the failure: an HTTP 500 whose
  detail carries the error of the analyzer client.
\<close>

theorem upstream_failure_marks_error:
  assumes "find (\<lambda>a. Article.id a = key) (articles w) = Some article"
    and "post E (sent w) = Response code body" and "code \<noteq> 200"
  shows "fst (analyze_article E w key request t0 t1) =
           Inl (HTTPException_str 500 ''Analysis failed: ''
                  (HTTPException 500 ''Claude API error'')) \<and>
         sent (snd (analyze_article E w key request t0 t1)) = Suc (sent w) \<and>
         (\<exists>a. find (\<lambda>a. Article.id a = key)
                 (articles (snd (analyze_article E w key request t0 t1))) = Some a \<and>
              Article.status a = ''error'')"
proof -
  have "analyze_with_claude E (sent w) (Article.to_url article) (Article.main_kw article)
          = (Inl (HTTPException 500 ''Claude API error''), Suc (sent w))"
    using assms(2,3) by (rule analyze_with_claude_not_200)
  from analyze_article_failure [OF assms(1) this, of request t0 t1] assms(1)
  show ?thesis
    by (simp add: find_update_article find_begin_analysis)
qed


text \<open>The theorem at the first article of the demo project, the service answering 500.\<close>

theorem upstream_failure_marks_error_witness:
  "find (\<lambda>a. Article.id a = ''id+'') (articles (demo_world 0 row_a row_b 0)) = Some row_a \<and>
   post (sample_env [Response 500 []]) (sent (demo_world 0 row_a row_b 0)) = Response 500 [] \<and>
   (500 :: int) \<noteq> 200 \<and>
   fst (analyze_article (sample_env [Response 500 []]) (demo_world 0 row_a row_b 0) ''id+''
          sample_request 0 1700000) =
     Inl (HTTPException_str 500 ''Analysis failed: '' (HTTPException 500 ''Claude API error'')) \<and>
   sent (snd (analyze_article (sample_env [Response 500 []]) (demo_world 0 row_a row_b 0) ''id+''
                sample_request 0 1700000)) = Suc 0 \<and>
   (\<exists>a. find (\<lambda>a. Article.id a = ''id+'')
           (articles (snd (analyze_article (sample_env [Response 500 []])
                             (demo_world 0 row_a row_b 0) ''id+'' sample_request 0 1700000)))
         = Some a \<and> Article.status a = ''error'')"
proof -
  have f: "find (\<lambda>a. Article.id a = ''id+'') (articles (demo_world 0 row_a row_b 0)) = Some row_a"
    by (simp add: demo_world_def row_a_def)
  have p: "post (sample_env [Response 500 []]) (sent (demo_world 0 row_a row_b 0))
             = Response 500 []"
    by (simp add: demo_world_def)
  have c: "(500 :: int) \<noteq> 200"
    by simp
  from upstream_failure_marks_error [OF f p c, of sample_request 0 1700000] f p c
  show ?thesis by (simp add: demo_world_def)
qed

subsection \<open>A run of the handlers\<close>

lemma created_sample:
  "snd (create_project (sample_env rs) empty_world ''demo'') =
     \<lparr>projects = [\<lparr>Project.id = ''id'', name = ''demo'', total_articles = 0,
                     completed_articles = 0, Project.status = ''created''\<rparr>],
      articles = [], uuids = Suc 0, sent = 0\<rparr>"
  by (simp add: create_project_def empty_world_def sample_uuid4_def Let_def)

lemma read_sample_frame:
  "read_articles ''id'' (Some sample_frame) =
     Inr [row_a\<lparr>Article.id := []\<rparr>, row_b\<lparr>Article.id := []\<rparr>]"
  by (simp add: read_articles_def sample_frame_def required_columns_def row_get_def
      row_a_def row_b_def)

lemma run_upload_sample: "run_upload (sample_env rs) = demo_world 0 row_a row_b 0"
  by (simp add: run_upload_def created_sample upload_excel_def read_sample_frame Let_def
      insert_articles_def update_project_def sample_uuid4_def demo_world_def demo_project_def
      row_a_def row_b_def upt_rec numeral_2_eq_2 numeral_3_eq_3)

lemma analyze_good_reply:
  assumes "n < length rs" and "rs ! n = good_reply"
  shows "analyze_with_claude (sample_env rs) n url kw = (Inr good_result, Suc n)"
proof -
  have "build_result (sample_env rs) good_json = Inr good_result"
    by (simp add: build_result_def good_json_def good_result_def LinkOpportunity_init_def
        opportunity_dict_def int_field_def str_field_def strict_int_def strict_str_def
        AnalysisResult_init_def good_opportunity_def)
  moreover have "analyze_with_claude (sample_env rs) n url kw
      = (build_result (sample_env rs) good_json, Suc n)"
    using assms
    by (intro analyze_with_claude_decoded [where body = "envelope good_text"
          and cr = "envelope_json good_text" and t = good_text])
       (simp_all add: good_reply_def sample_response_good sample_loads_good)
  ultimately show ?thesis by simp
qed

lemma analyze_500:
  assumes "n < length rs" and "rs ! n = Response 500 []"
  shows "analyze_with_claude (sample_env rs) n url kw
           = (Inl (HTTPException 500 ''Claude API error''), Suc n)"
  using assms by (intro analyze_with_claude_not_200 [where code = 500 and body = "[]"]) simp_all

lemma sample_dumps_good [simp]: "sample_dumps (result_dict good_result) = good_stored"
  by (simp add: sample_dumps_def)

lemma demo_world_simps [simp]:
  "projects (demo_world c a b n) = [demo_project c]"
  "articles (demo_world c a b n) = [a, b]"
  "uuids (demo_world c a b n) = 3"
  "sent (demo_world c a b n) = n"
  by (simp_all add: demo_world_def)

lemma demo_ids [simp]:
  "Article.id row_a = ''id+''" "Article.id row_b = ''id++''"
  "Article.id (analysed st a) = Article.id a"
  "Article.project_id row_a = ''id''" "Article.project_id row_b = ''id''"
  "Article.project_id (analysed st a) = Article.project_id a"
  "Article.status row_a = ''pending''" "Article.status row_b = ''pending''"
  "Article.status (analysed st a) = st"
  "Project.id (demo_project c) = ''id''"
  by (simp_all add: row_a_def row_b_def analysed_def demo_project_def)

lemmas demo_defs = update_project_def update_article_def begin_analysis_def store_results_def
  completed_count_def demo_world_def demo_project_def analysed_def row_a_def row_b_def
  total_seconds_def sample_request_def

lemma step_a_completes:
  assumes "0 < length rs" and "rs ! 0 = good_reply"
  shows "analyse (sample_env rs) (demo_world 0 row_a row_b 0) ''id+'' =
           demo_world 0 (analysed ''completed'' row_a) row_b (Suc 0)"
proof -
  let ?w = "demo_world 0 row_a row_b 0"
  have f: "find (\<lambda>a. Article.id a = ''id+'') (articles ?w) = Some row_a"
    by simp
  have c: "analyze_with_claude (sample_env rs) (sent ?w) (Article.to_url row_a)
             (Article.main_kw row_a) = (Inr good_result, Suc 0)"
    using assms by (simp add: analyze_good_reply)
  have p: "find (\<lambda>p. Project.id p = Article.project_id row_a) (projects ?w)
             = Some (demo_project 0)"
    by simp
  show ?thesis
    unfolding analyse_def analyze_article_success [OF f c p]
    by (simp add: demo_defs)
qed

lemma step_b_completes:
  assumes "1 < length rs" and "rs ! 1 = good_reply"
  shows "analyse (sample_env rs) (demo_world 0 (analysed ''completed'' row_a) row_b (Suc 0))
           ''id++'' =
           demo_world 1 (analysed ''completed'' row_a) (analysed ''completed'' row_b) 2"
proof -
  let ?w = "demo_world 0 (analysed ''completed'' row_a) row_b (Suc 0)"
  have f: "find (\<lambda>a. Article.id a = ''id++'') (articles ?w) = Some row_b"
    by simp
  have c: "analyze_with_claude (sample_env rs) (sent ?w) (Article.to_url row_b)
             (Article.main_kw row_b) = (Inr good_result, Suc (Suc 0))"
    using assms by (simp add: analyze_good_reply)
  have p: "find (\<lambda>p. Project.id p = Article.project_id row_b) (projects ?w)
             = Some (demo_project 0)"
    by simp
  show ?thesis
    unfolding analyse_def analyze_article_success [OF f c p]
    by (simp add: demo_defs)
qed

lemma step_a_fails:
  assumes "2 < length rs" and "rs ! 2 = Response 500 []"
  shows "analyse (sample_env rs)
           (demo_world 1 (analysed ''completed'' row_a) (analysed ''completed'' row_b) 2) ''id+'' =
         demo_world 1 (analysed ''error'' row_a) (analysed ''completed'' row_b) 3"
proof -
  let ?w = "demo_world 1 (analysed ''completed'' row_a) (analysed ''completed'' row_b) 2"
  have f: "find (\<lambda>a. Article.id a = ''id+'') (articles ?w)
             = Some (analysed ''completed'' row_a)"
    by simp
  have c: "analyze_with_claude (sample_env rs) (sent ?w)
             (Article.to_url (analysed ''completed'' row_a))
             (Article.main_kw (analysed ''completed'' row_a))
           = (Inl (HTTPException 500 ''Claude API error''), Suc 2)"
    using assms by (simp add: analyze_500)
  show ?thesis
    unfolding analyse_def analyze_article_failure [OF f c]
    by (simp add: demo_defs)
qed

lemma step_b_fails:
  assumes "3 < length rs" and "rs ! 3 = Response 500 []"
  shows "analyse (sample_env rs)
           (demo_world 1 (analysed ''error'' row_a) (analysed ''completed'' row_b) 3) ''id++'' =
         demo_world 1 (analysed ''error'' row_a) (analysed ''error'' row_b) 4"
proof -
  let ?w = "demo_world 1 (analysed ''error'' row_a) (analysed ''completed'' row_b) 3"
  have f: "find (\<lambda>a. Article.id a = ''id++'') (articles ?w)
             = Some (analysed ''completed'' row_b)"
    by simp
  have c: "analyze_with_claude (sample_env rs) (sent ?w)
             (Article.to_url (analysed ''completed'' row_b))
             (Article.main_kw (analysed ''completed'' row_b))
           = (Inl (HTTPException 500 ''Claude API error''), Suc 3)"
    using assms by (simp add: analyze_500)
  show ?thesis
    unfolding analyse_def analyze_article_failure [OF f c]
    by (simp add: demo_defs)
qed

text \<open>
  C3 does not hold of the handler. After the first successful analysis in the demo project
  one article is completed and \<^verbatim>\<open>completed_articles\<close> is 0: the count is taken before the
  new status is written. After both articles were analysed and both analyses were then
  repeated and failed, no article is completed and \<^verbatim>\<open>completed_articles\<close> is 1: the
  \<^verbatim>\<open>except\<close> clause does not count again.
\<close>

theorem completed_counter_drifts:
  "(let E = sample_env [good_reply];
        w = analyse E (run_upload E) ''id+''
    in map Article.status (articles w) = [''completed'', ''pending''] \<and>
       completed_count w ''id'' = 1 \<and>
       map completed_articles (projects w) = [0]) \<and>
   (let E = sample_env [good_reply, good_reply, Response 500 [], Response 500 []];
        w = analyse E (analyse E (analyse E (analyse E (run_upload E) ''id+'') ''id++'') ''id+'')
              ''id++''
    in map Article.status (articles w) = [''error'', ''error''] \<and>
       completed_count w ''id'' = 0 \<and>
       map completed_articles (projects w) = [1])"
  by (simp add: Let_def run_upload_sample step_a_completes step_b_completes step_a_fails
      step_b_fails completed_count_def demo_project_def)

subsection \<open>Upload, invariants of the reachable states, and export\<close>

lemma update_article_preserves:
  assumes "\<forall>a\<in>set (articles w). P a" and "\<And>a. P a \<Longrightarrow> P (f a)"
  shows "\<forall>a\<in>set (articles (update_article w key f)). P a"
  using assms by (auto simp: articles_update_article)

lemma begin_analysis_preserves:
  assumes "\<forall>a\<in>set (articles w). P a"
    and "\<And>a h. P (a\<lparr>Article.html_content := h, Article.status := ''analyzing''\<rparr>)"
  shows "\<forall>a\<in>set (articles (begin_analysis w key html)). P a"
  unfolding begin_analysis_def using assms by (intro update_article_preserves) auto

lemma articles_sent_update [simp]: "articles (w\<lparr>sent := n\<rparr>) = articles w"
  by simp

lemma analyze_article_preserves:
  assumes all: "\<forall>a\<in>set (articles w). P a"
    and analyzing: "\<And>a h. P (a\<lparr>Article.html_content := h, Article.status := ''analyzing''\<rparr>)"
    and failed: "\<And>a. P (a\<lparr>Article.status := ''error''\<rparr>)"
    and stored: "\<And>a r d. P (store_results E r d a)"
  shows "\<forall>a\<in>set (articles (snd (analyze_article E w key request t0 t1))). P a"
proof (cases "find (\<lambda>a. Article.id a = key) (articles w)")
  case None
  then show ?thesis using all by (simp add: analyze_article_not_found)
next
  case (Some article)
  let ?w1 = "(begin_analysis w key (AnalysisRequest.html_content request))"
  have w1: "\<And>n. \<forall>a\<in>set (articles (?w1\<lparr>sent := n\<rparr>)). P a"
    using begin_analysis_preserves [OF all analyzing] by simp
  obtain r n where call:
    "analyze_with_claude E (sent w) (Article.to_url article) (Article.main_kw article) = (r, n)"
    by (cases "analyze_with_claude E (sent w) (Article.to_url article) (Article.main_kw article)")
  show ?thesis
  proof (cases r)
    case (Inl e)
    with call have "analyze_with_claude E (sent w) (Article.to_url article)
        (Article.main_kw article) = (Inl e, n)" by simp
    from analyze_article_failure [OF Some this] show ?thesis
      by (simp del: articles_sent_update) (rule update_article_preserves [OF w1], rule failed)
  next
    case (Inr result)
    with call have c: "analyze_with_claude E (sent w) (Article.to_url article)
        (Article.main_kw article) = (Inr result, n)" by simp
    show ?thesis
    proof (cases "find (\<lambda>p. Project.id p = Article.project_id article) (projects w)")
      case None
      from analyze_article_no_project [OF Some c None] show ?thesis
        by (simp del: articles_sent_update) (rule update_article_preserves [OF w1], rule failed)
    next
      case (Some project)
      from analyze_article_success [OF \<open>find (\<lambda>a. Article.id a = key) (articles w) = Some article\<close> c Some]
      show ?thesis
        by (simp del: articles_sent_update) (rule update_article_preserves [OF w1], rule stored)
    qed
  qed
qed

lemma new_articles_made_from_rows:
  "new_articles pid cols i rs = Inr new \<Longrightarrow>
     list_all2 (made_from_row pid cols) new rs \<and>
     map Article.order_index new = map int [i ..< i + length rs]"
proof (induction rs arbitrary: i new)
  case Nil
  then show ?case by simp
next
  case (Cons row rest)
  from Cons.prems obtain f t k more where
    cells: "row_get cols row ''From'' = Inr f" "row_get cols row ''To'' = Inr t"
      "row_get cols row ''Main KW'' = Inr k"
    and more: "new_articles pid cols (Suc i) rest = Inr more"
    and new: "new = \<lparr>Article.id = [], project_id = pid, from_url = py_str f,
             to_url = py_str t, main_kw = py_str k, html_content = None,
             Article.status = ''pending'', analysis_results = None, processing_time = None,
             order_index = int i\<rparr> # more"
    by (auto simp: and_then_eq_Inr)
  from Cons.IH [OF more] cells new show ?case
    by (simp add: made_from_row_def cell_text_def upt_rec)
qed

lemma made_from_row_id [simp]:
  "made_from_row pid cols (a\<lparr>Article.id := x\<rparr>) row = made_from_row pid cols a row"
  by (simp add: made_from_row_def)

lemma insert_articles_articles:
  "\<exists>new'. articles (insert_articles E w new) = articles w @ new' \<and>
          length new' = length new \<and>
          (\<forall>i<length new. new' ! i = (new ! i)\<lparr>Article.id := uuid4 E (uuids w + i)\<rparr>)"
  by (rule exI [where x = "map (\<lambda>ka. (snd ka)\<lparr>Article.id := uuid4 E (fst ka)\<rparr>)
              (zip [uuids w ..< uuids w + length new] new)"])
     (simp add: insert_articles_def)

lemma upload_excel_success:
  assumes "upload_excel E w pid sheet = (Inr n, w')"
  shows "\<exists>df new project. sheet = Some df \<and>
           find (\<lambda>p. Project.id p = pid) (projects w) = Some project \<and>
           new_articles pid (columns df) 0 (rows df) = Inr new \<and>
           n = int (length new) \<and>
           w' = update_project (insert_articles E w new) pid
                  (\<lambda>p. p\<lparr>total_articles := int (length new), Project.status := ''ready''\<rparr>)"
proof -
  from assms obtain project where p: "find (\<lambda>p. Project.id p = pid) (projects w) = Some project"
    by (cases "find (\<lambda>p. Project.id p = pid) (projects w)") (auto simp: upload_excel_def)
  with assms obtain new where r: "read_articles pid sheet = Inr new"
    by (cases "read_articles pid sheet") (auto simp: upload_excel_def)
  then obtain df where f: "sheet = Some df"
    and n: "new_articles pid (columns df) 0 (rows df) = Inr new"
    by (cases sheet) (auto simp: read_articles_def split: if_splits)
  from assms p r find_project_id [OF p] have "n = int (length new)"
    and "w' = update_project (insert_articles E w new) pid
                  (\<lambda>p. p\<lparr>total_articles := int (length new), Project.status := ''ready''\<rparr>)"
    by (auto simp: upload_excel_def Let_def)
  with p f n show ?thesis by blast
qed

lemma upload_excel_articles:
  assumes "upload_excel E w pid sheet = (Inr n, w')"
  shows "\<exists>df new. sheet = Some df \<and> n = int (length (rows df)) \<and>
           articles w' = articles w @ new \<and>
           list_all2 (made_from_row pid (columns df)) new (rows df) \<and>
           map Article.order_index new = map int [0 ..< length (rows df)]"
proof -
  from upload_excel_success [OF assms] obtain df new where
    f: "sheet = Some df" and na: "new_articles pid (columns df) 0 (rows df) = Inr new"
    and n: "n = int (length new)"
    and w': "w' = update_project (insert_articles E w new) pid
                  (\<lambda>p. p\<lparr>total_articles := int (length new), Project.status := ''ready''\<rparr>)"
    by blast
  from new_articles_made_from_rows [OF na]
  have made: "list_all2 (made_from_row pid (columns df)) new (rows df)"
    and idx: "map Article.order_index new = map int [0 ..< length (rows df)]"
    by simp_all
  from made have len: "length new = length (rows df)"
    by (rule list_all2_lengthD)
  from insert_articles_articles [of E w new] obtain new' where
    a: "articles (insert_articles E w new) = articles w @ new'"
    and l: "length new' = length new"
    and e: "\<forall>i<length new. new' ! i = (new ! i)\<lparr>Article.id := uuid4 E (uuids w + i)\<rparr>"
    by blast
  have "list_all2 (made_from_row pid (columns df)) new' (rows df)"
    using made l e len by (simp add: list_all2_conv_all_nth)
  moreover have "map Article.order_index new' = map Article.order_index new"
    using l e by (simp add: list_eq_iff_nth_eq)
  ultimately show ?thesis
    using f n len a w' idx by simp
qed

text \<open>
  C7. When one of the columns \<^verbatim>\<open>From\<close>, \<^verbatim>\<open>To\<close>, \<^verbatim>\<open>Main KW\<close> is missing from the sheet,
  \<^verbatim>\<open>upload_excel\<close> fails and leaves the database as it was: no article is created, and
  \<^verbatim>\<open>total_articles\<close> and \<^verbatim>\<open>status\<close> of the project keep their values. For an existing
  project the failure is the HTTP 400 that names the required columns.
\<close>

theorem upload_missing_column_creates_nothing:
  assumes "\<not> set required_columns \<subseteq> set (columns df)"
  shows "snd (upload_excel E w pid (Some df)) = w \<and>
         (\<exists>e. fst (upload_excel E w pid (Some df)) = Inl e) \<and>
         (find (\<lambda>p. Project.id p = pid) (projects w) \<noteq> None \<longrightarrow>
            fst (upload_excel E w pid (Some df)) =
              Inl (HTTPException_str 400 ''Error processing Excel: ''
                     (HTTPException 400 missing_columns_detail)))"
proof -
  from assms have "read_articles pid (Some df) = Inl (HTTPException 400 missing_columns_detail)"
    by (auto simp: read_articles_def list_all_iff)
  then show ?thesis
    by (cases "find (\<lambda>p. Project.id p = pid) (projects w)") (simp_all add: upload_excel_def)
qed

text \<open>
  C6. When \<^verbatim>\<open>upload_excel\<close> succeeds (so the project exists and the file was read), it
  returns the number of rows, and the table of articles has grown by one article per row,
  in the order of the rows: the article of a row is pending, belongs to the project, has
  the texts of the cells \<^verbatim>\<open>From\<close>, \<^verbatim>\<open>To\<close> and \<^verbatim>\<open>Main KW\<close> of that row, and its
  \<^verbatim>\<open>order_index\<close> is the position of the row, so that the indices are exactly 0 to n - 1.
\<close>

theorem upload_creates_articles_in_row_order:
  assumes "upload_excel E w pid sheet = (Inr n, w')"
  shows "\<exists>df new. sheet = Some df \<and> n = int (length (rows df)) \<and>
           articles w' = articles w @ new \<and>
           list_all2 (made_from_row pid (columns df)) new (rows df) \<and>
           map Article.order_index new = map int [0 ..< length (rows df)] \<and>
           Article.order_index ` set new = {0 ..< n}"
proof -
  from upload_excel_articles [OF assms] obtain df new where
    *: "sheet = Some df" "n = int (length (rows df))" "articles w' = articles w @ new"
      "list_all2 (made_from_row pid (columns df)) new (rows df)"
      "map Article.order_index new = map int [0 ..< length (rows df)]"
    by blast
  have "Article.order_index ` set new = set (map Article.order_index new)"
    by simp
  also have "\<dots> = int ` {0 ..< length (rows df)}"
    unfolding *(5) by simp
  also have "\<dots> = {0 ..< n}"
    unfolding *(2) by (simp add: image_int_atLeastLessThan)
  finally show ?thesis using * by blast
qed

lemma upload_excel_failure:
  assumes "fst (upload_excel E w pid sheet) = Inl e"
  shows "snd (upload_excel E w pid sheet) = w"
  using assms
  by (auto simp: upload_excel_def Let_def split: option.splits sum.splits)

lemma made_from_row_results:
  "made_from_row pid cols a row \<Longrightarrow>
     Article.status a = ''pending'' \<and> Article.analysis_results a = None"
  by (simp add: made_from_row_def)

lemma upload_excel_preserves:
  assumes all: "\<forall>a\<in>set (articles w). P a"
    and fresh: "\<And>a. Article.status a = ''pending'' \<Longrightarrow> Article.analysis_results a = None \<Longrightarrow> P a"
  shows "\<forall>a\<in>set (articles (snd (upload_excel E w pid sheet))). P a"
proof (cases "fst (upload_excel E w pid sheet)")
  case (Inl e)
  then show ?thesis using all by (simp add: upload_excel_failure)
next
  case (Inr n)
  then have "upload_excel E w pid sheet = (Inr n, snd (upload_excel E w pid sheet))"
    by (simp add: prod_eq_iff)
  from upload_excel_articles [OF this] obtain df :: dataframe and new where
    a: "articles (snd (upload_excel E w pid sheet)) = articles w @ new"
    and m: "list_all2 (made_from_row pid (columns df)) new (rows df)"
    by blast
  have "\<forall>a\<in>set new. P a"
  proof
    fix a assume "a \<in> set new"
    then obtain i where "i < length new" "a = new ! i"
      by (auto simp: in_set_conv_nth)
    with m have "made_from_row pid (columns df) a (rows df ! i)"
      by (simp add: list_all2_conv_all_nth)
    then show "P a" by (intro fresh) (simp_all add: made_from_row_def)
  qed
  with all a show ?thesis by auto
qed

lemma reachable_articles:
  assumes "reachable E w" and "a \<in> set (articles w)"
  shows "(Article.status a = ''completed'' \<longrightarrow>
            (\<exists>r. Article.analysis_results a = Some (json_dumps E (result_dict r)))) \<and>
         (Article.status a = ''pending'' \<longrightarrow> Article.analysis_results a = None)"
proof -
  let ?P = "\<lambda>a. (Article.status a = ''completed'' \<longrightarrow>
            (\<exists>r. Article.analysis_results a = Some (json_dumps E (result_dict r)))) \<and>
         (Article.status a = ''pending'' \<longrightarrow> Article.analysis_results a = None)"
  from assms(1) have "\<forall>a\<in>set (articles w). ?P a"
  proof (induction rule: reachable.induct)
    case start
    show ?case by (simp add: empty_world_def)
  next
    case (created w project_name)
    then show ?case by (simp add: create_project_def Let_def)
  next
    case (uploaded w pid sheet)
    show ?case by (rule upload_excel_preserves [OF uploaded.IH]) simp
  next
    case (analyzing w key html)
    show ?case by (rule begin_analysis_preserves [OF analyzing.IH]) simp
  next
    case (analyzed w key request start_time end_time)
    show ?case
      by (rule analyze_article_preserves [OF analyzed.IH]) (auto simp: store_results_def)
  qed
  with assms(2) show ?thesis by blast
qed

lemma failed_analysis_keeps_results:
  assumes "find (\<lambda>a. Article.id a = key) (articles w) = Some article"
    and "fst (analyze_with_claude E (sent w) (Article.to_url article) (Article.main_kw article))
           = Inl e"
  shows "\<exists>a'. find (\<lambda>a. Article.id a = key)
                (articles (snd (analyze_article E w key request t0 t1))) = Some a' \<and>
              Article.status a' = ''error'' \<and>
              Article.analysis_results a' = Article.analysis_results article"
proof -
  from assms(2) obtain n where
    "analyze_with_claude E (sent w) (Article.to_url article) (Article.main_kw article) = (Inl e, n)"
    by (cases "analyze_with_claude E (sent w) (Article.to_url article) (Article.main_kw article)")
       simp
  from analyze_article_failure [OF assms(1) this, of request t0 t1] assms(1)
  show ?thesis
    by (simp add: find_update_article find_begin_analysis)
qed

text \<open>
  C4, as amended. In every state the handlers lead to, an article in status
  \<^verbatim>\<open>completed\<close> has its \<^verbatim>\<open>analysis_results\<close> (the dump of a result) and a pending article has
  none. The converse is not kept: when the analyzer client raises, the article ends in
  status \<^verbatim>\<open>error\<close> with the \<^verbatim>\<open>analysis_results\<close> it had before the attempt.
\<close>

theorem completed_articles_hold_results:
  "(reachable E w \<and> a \<in> set (articles w) \<longrightarrow>
      (Article.status a = ''completed'' \<longrightarrow>
         (\<exists>r. Article.analysis_results a = Some (json_dumps E (result_dict r)))) \<and>
      (Article.status a = ''pending'' \<longrightarrow> Article.analysis_results a = None)) \<and>
   (find (\<lambda>a. Article.id a = key) (articles w) = Some article \<and>
    fst (analyze_with_claude E (sent w) (Article.to_url article) (Article.main_kw article))
      = Inl e \<longrightarrow>
      (\<exists>a'. find (\<lambda>a. Article.id a = key)
                (articles (snd (analyze_article E w key request t0 t1))) = Some a' \<and>
            Article.status a' = ''error'' \<and>
            Article.analysis_results a' = Article.analysis_results article))"
  using reachable_articles [of E w a] failed_analysis_keeps_results [of key w article E e request t0 t1]
  by blast

lemma analyze_with_claude_decodable:
  assumes "post E n = Response 200 body" and "\<not> json_decode_error E body"
  shows "analyze_with_claude E n url kw = (parse_response E body, Suc n)"
  using assms by (simp add: analyze_with_claude_def parse_response_decode_error)

lemma total_seconds_eq: "total_seconds d = 2.5 \<longleftrightarrow> d = 2500000"
  by (simp add: total_seconds_def)

text \<open>
  C10. When an analysis completes on a reply that is valid JSON (so not through the
  fallback), the result returned to the caller has processing time 2.5 whatever the clock
  says, the article is stored with the time between the two clock readings (their
  difference in microseconds, divided by a million), and the two are equal exactly when
  that time is 2.5 seconds.
\<close>

theorem processing_times_differ:
  assumes "find (\<lambda>a. Article.id a = key) (articles w) = Some article"
    and "post E (sent w) = Response 200 body" and "\<not> json_decode_error E body"
    and "fst (analyze_article E w key request t0 t1) = Inr result"
  shows "AnalysisResult.processing_time result = 2.5 \<and>
         (\<exists>a. find (\<lambda>a. Article.id a = key)
                 (articles (snd (analyze_article E w key request t0 t1))) = Some a \<and>
              Article.status a = ''completed'' \<and>
              Article.processing_time a = Some (real_of_int (t1 - t0) / 1000000) \<and>
              (Article.processing_time a = Some (AnalysisResult.processing_time result))
                = (t1 - t0 = 2500000))"
proof -
  have call: "analyze_with_claude E (sent w) (Article.to_url article) (Article.main_kw article)
                = (parse_response E body, Suc (sent w))"
    using assms(2,3) by (rule analyze_with_claude_decodable)
  show ?thesis
  proof (cases "parse_response E body")
    case (Inl e)
    with call analyze_article_failure [OF assms(1), of E e "Suc (sent w)" request t0 t1] assms(4)
    show ?thesis by simp
  next
    case (Inr r)
    with call have c: "analyze_with_claude E (sent w) (Article.to_url article)
        (Article.main_kw article) = (Inr r, Suc (sent w))" by simp
    from Inr have time: "AnalysisResult.processing_time r = 2.5"
      by (rule parse_response_time)
    show ?thesis
    proof (cases "find (\<lambda>p. Project.id p = Article.project_id article) (projects w)")
      case None
      from analyze_article_no_project [OF assms(1) c None, of request t0 t1] assms(4)
      show ?thesis by simp
    next
      case (Some project)
      note s = analyze_article_success [OF assms(1) c Some, of request t0 t1]
      with assms(4) have r: "result = r" by simp
      let ?a = "store_results E r (t1 - t0)
                 (article\<lparr>Article.html_content := Some (AnalysisRequest.html_content request),
                    Article.status := ''analyzing''\<rparr>)"
      have found: "find (\<lambda>a. Article.id a = key)
                 (articles (snd (analyze_article E w key request t0 t1))) = Some ?a"
        using s assms(1) by (simp add: find_update_article find_begin_analysis)
      have status: "Article.status ?a = ''completed''"
        by (simp add: store_results_def)
      have kept: "Article.processing_time ?a = Some (total_seconds (t1 - t0))"
        by (simp add: store_results_def)
      have stored: "Article.processing_time ?a = Some (real_of_int (t1 - t0) / 1000000)"
        unfolding kept total_seconds_def by (rule refl)
      have "(total_seconds (t1 - t0) = AnalysisResult.processing_time r)
              = (t1 - t0 = 2500000)"
        unfolding time by (rule total_seconds_eq)
      then have differ: "(Article.processing_time ?a
                            = Some (AnalysisResult.processing_time result))
                           = (t1 - t0 = 2500000)"
        unfolding kept r by (simp only: option.inject)
      have "AnalysisResult.processing_time result = 2.5"
        using r time by (simp only:)
      moreover from found status stored differ
      have "\<exists>a. find (\<lambda>a. Article.id a = key)
                 (articles (snd (analyze_article E w key request t0 t1))) = Some a \<and>
              Article.status a = ''completed'' \<and>
              Article.processing_time a = Some (real_of_int (t1 - t0) / 1000000) \<and>
              (Article.processing_time a = Some (AnalysisResult.processing_time result))
                = (t1 - t0 = 2500000)"
        by blast
      ultimately show ?thesis by (rule conjI)
    qed
  qed
qed

lemma opportunity_rows_dicts:
  "opportunity_rows a (map opportunity_dict vs) = Inr (map (export_row_of a) vs)"
  by (induction vs) (simp_all add: opportunity_dict_def export_row_of_def)

lemma article_rows_stored:
  assumes "Article.analysis_results a = Some s" and "s \<noteq> []"
    and "json_loads E s = Inr (result_dict r)"
  shows "article_rows E a = Inr (map (export_row_of a) (opportunities r))"
  using assms by (simp add: article_rows_def result_dict_def opportunity_rows_dicts)

lemma export_data_stored:
  assumes "\<forall>a\<in>set xs. \<exists>s. Article.analysis_results a = Some s \<and> s \<noteq> [] \<and>
             json_loads E s = Inr (result_dict (R a))"
  shows "export_data E xs =
           Inr (concat (map (\<lambda>a. map (export_row_of a) (opportunities (R a))) xs))"
  using assms by (induction xs) (auto simp: article_rows_stored)

lemma completed_articles_of_mset:
  "mset (completed_articles_of w pid) =
     mset (filter (\<lambda>a. Article.project_id a = pid \<and> Article.status a = ''completed'')
             (articles w))"
  by (simp add: completed_articles_of_def)

lemma completed_articles_of_sorted:
  "sorted (map Article.order_index (completed_articles_of w pid))"
  by (simp add: completed_articles_of_def)

lemma completed_articles_of_set:
  "set (completed_articles_of w pid) =
     {a \<in> set (articles w). Article.project_id a = pid \<and> Article.status a = ''completed''}"
  by (auto simp: completed_articles_of_def)

text \<open>
  C8. When the stored results of the completed articles of a project decode to the
  results \<open>R\<close>, \<^verbatim>\<open>export_results\<close> returns the rows of the opportunities of exactly the
  completed articles of the project (whatever the other articles hold), the articles by
  \<^verbatim>\<open>order_index\<close> and the opportunities of an article in their own order, each row with
  the URLs and keyword of its article and the rating, location, old text, new text and
  reasoning of its opportunity, together with the number of rows; the database is returned
  unchanged.
\<close>

theorem export_flattens_completed_articles:
  assumes "\<forall>a\<in>set (articles w).
             Article.project_id a = pid \<and> Article.status a = ''completed'' \<longrightarrow>
             (\<exists>s. Article.analysis_results a = Some s \<and> s \<noteq> [] \<and>
                  json_loads E s = Inr (result_dict (R a)))"
  shows "\<exists>xs rs. mset xs = mset (filter (\<lambda>a. Article.project_id a = pid \<and>
                                       Article.status a = ''completed'') (articles w)) \<and>
           sorted (map Article.order_index xs) \<and>
           rs = concat (map (\<lambda>a. map (export_row_of a) (opportunities (R a))) xs) \<and>
           export_results E w pid =
             (Inr \<lparr>results = rs, total_opportunities = int (length rs)\<rparr>, w)"
proof (intro exI conjI)
  let ?xs = "completed_articles_of w pid"
  show "mset ?xs = mset (filter (\<lambda>a. Article.project_id a = pid \<and>
                                       Article.status a = ''completed'') (articles w))"
    by (rule completed_articles_of_mset)
  show "sorted (map Article.order_index ?xs)"
    by (rule completed_articles_of_sorted)
  show "concat (map (\<lambda>a. map (export_row_of a) (opportunities (R a))) ?xs)
          = concat (map (\<lambda>a. map (export_row_of a) (opportunities (R a))) ?xs)"
    by (rule refl)
  have "export_data E ?xs =
          Inr (concat (map (\<lambda>a. map (export_row_of a) (opportunities (R a))) ?xs))"
    using assms by (intro export_data_stored) (simp add: completed_articles_of_set)
  then show "export_results E w pid =
      (Inr \<lparr>results = concat (map (\<lambda>a. map (export_row_of a) (opportunities (R a))) ?xs),
            total_opportunities =
              int (length (concat (map (\<lambda>a. map (export_row_of a) (opportunities (R a))) ?xs)))\<rparr>,
       w)"
    by (simp add: export_results_def)
qed

lemma upload_sample:
  "upload_excel (sample_env rs) (snd (create_project (sample_env rs) empty_world ''demo'')) ''id''
     (Some sample_frame) = (Inr 2, demo_world 0 row_a row_b 0)"
  by (simp add: created_sample upload_excel_def read_sample_frame Let_def
      insert_articles_def update_project_def sample_uuid4_def demo_world_def demo_project_def
      row_a_def row_b_def upt_rec numeral_2_eq_2 numeral_3_eq_3)

text \<open>The theorem at the sheet of two rows uploaded to the new project.\<close>

theorem upload_creates_articles_in_row_order_witness:
  "upload_excel (sample_env []) (snd (create_project (sample_env []) empty_world ''demo'')) ''id''
     (Some sample_frame) = (Inr 2, demo_world 0 row_a row_b 0) \<and>
   (\<exists>df new. Some sample_frame = Some df \<and> 2 = int (length (rows df)) \<and>
      articles (demo_world 0 row_a row_b 0) =
        articles (snd (create_project (sample_env []) empty_world ''demo'')) @ new \<and>
      list_all2 (made_from_row ''id'' (columns df)) new (rows df) \<and>
      map Article.order_index new = map int [0 ..< length (rows df)] \<and>
      Article.order_index ` set new = {0 ..< 2})"
  using upload_creates_articles_in_row_order [OF upload_sample [of "[]"]] upload_sample [of "[]"]
  by (rule conjI [rotated])

text \<open>The theorem at a sheet without the column \<^verbatim>\<open>Main KW\<close>.\<close>

theorem upload_missing_column_creates_nothing_witness:
  "\<not> set required_columns \<subseteq> set (columns short_frame) \<and>
   snd (upload_excel (sample_env []) (snd (create_project (sample_env []) empty_world ''demo''))
          ''id'' (Some short_frame))
     = snd (create_project (sample_env []) empty_world ''demo'') \<and>
   fst (upload_excel (sample_env []) (snd (create_project (sample_env []) empty_world ''demo''))
          ''id'' (Some short_frame))
     = Inl (HTTPException_str 400 ''Error processing Excel: ''
              (HTTPException 400 missing_columns_detail))"
proof -
  have h: "\<not> set required_columns \<subseteq> set (columns short_frame)"
    by (simp add: required_columns_def short_frame_def)
  have p: "find (\<lambda>p. Project.id p = ''id'')
             (projects (snd (create_project (sample_env []) empty_world ''demo''))) \<noteq> None"
    by (simp add: created_sample)
  from upload_missing_column_creates_nothing [OF h, of "sample_env []"
      "snd (create_project (sample_env []) empty_world ''demo'')" "''id''"] h p
  show ?thesis by blast
qed

lemma first_run_world: "first_run = demo_world 0 (analysed ''completed'' row_a) row_b (Suc 0)"
  by (simp add: first_run_def rerun_env_def run_upload_sample step_a_completes)

lemma step_a_fails_early:
  assumes "1 < length rs" and "rs ! 1 = Response 500 []"
  shows "analyse (sample_env rs) (demo_world 0 (analysed ''completed'' row_a) row_b (Suc 0))
           ''id+'' =
         demo_world 0 (analysed ''error'' row_a) row_b 2"
proof -
  let ?w = "demo_world 0 (analysed ''completed'' row_a) row_b (Suc 0)"
  have f: "find (\<lambda>a. Article.id a = ''id+'') (articles ?w)
             = Some (analysed ''completed'' row_a)"
    by simp
  have c: "analyze_with_claude (sample_env rs) (sent ?w)
             (Article.to_url (analysed ''completed'' row_a))
             (Article.main_kw (analysed ''completed'' row_a))
           = (Inl (HTTPException 500 ''Claude API error''), Suc (Suc 0))"
    using assms by (simp add: analyze_500)
  show ?thesis
    unfolding analyse_def analyze_article_failure [OF f c]
    by (simp add: demo_defs)
qed

lemma failed_rerun_world: "failed_rerun = demo_world 0 (analysed ''error'' row_a) row_b 2"
  by (simp add: failed_rerun_def first_run_world rerun_env_def step_a_fails_early)

lemma first_run_reachable: "reachable rerun_env first_run"
  unfolding first_run_def analyse_def run_upload_def
  by (intro reachable.analyzed reachable.uploaded reachable.created reachable.start)

text \<open>
  C4 as it is written fails: after an analysis that succeeded and a second one that failed,
  the article is in status \<^verbatim>\<open>error\<close> and still holds the results of the first.
\<close>

theorem stale_results_after_failed_rerun:
  "reachable rerun_env failed_rerun \<and>
   articles failed_rerun = [analysed ''error'' row_a, row_b] \<and>
   Article.status (analysed ''error'' row_a) = ''error'' \<and>
   Article.analysis_results (analysed ''error'' row_a) = Some good_stored"
proof (intro conjI)
  show "reachable rerun_env failed_rerun"
    unfolding failed_rerun_def analyse_def
    by (intro reachable.analyzed first_run_reachable)
  show "articles failed_rerun = [analysed ''error'' row_a, row_b]"
    by (simp add: failed_rerun_world)
  show "Article.status (analysed ''error'' row_a) = ''error''"
    by simp
  show "Article.analysis_results (analysed ''error'' row_a) = Some good_stored"
    by (simp add: analysed_def)
qed

text \<open>The theorem at the demo project after its first article was analysed, and at the
  failing second analysis of that article.\<close>

theorem completed_articles_hold_results_witness:
  "reachable rerun_env first_run \<and>
   analysed ''completed'' row_a \<in> set (articles first_run) \<and>
   Article.status (analysed ''completed'' row_a) = ''completed'' \<and>
   (\<exists>r. Article.analysis_results (analysed ''completed'' row_a)
          = Some (json_dumps rerun_env (result_dict r))) \<and>
   find (\<lambda>a. Article.id a = ''id+'') (articles first_run) = Some (analysed ''completed'' row_a) \<and>
   fst (analyze_with_claude rerun_env (sent first_run)
          (Article.to_url (analysed ''completed'' row_a))
          (Article.main_kw (analysed ''completed'' row_a)))
     = Inl (HTTPException 500 ''Claude API error'') \<and>
   (\<exists>a'. find (\<lambda>a. Article.id a = ''id+'')
            (articles (snd (analyze_article rerun_env first_run ''id+'' sample_request 0 1700000)))
          = Some a' \<and>
        Article.status a' = ''error'' \<and>
        Article.analysis_results a' = Article.analysis_results (analysed ''completed'' row_a))"
proof -
  have r: "reachable rerun_env first_run"
    by (rule first_run_reachable)
  have m: "analysed ''completed'' row_a \<in> set (articles first_run)"
    by (simp add: first_run_world)
  have s: "Article.status (analysed ''completed'' row_a) = ''completed''"
    by simp
  have f: "find (\<lambda>a. Article.id a = ''id+'') (articles first_run)
             = Some (analysed ''completed'' row_a)"
    by (simp add: first_run_world)
  have c: "fst (analyze_with_claude rerun_env (sent first_run)
          (Article.to_url (analysed ''completed'' row_a))
          (Article.main_kw (analysed ''completed'' row_a)))
     = Inl (HTTPException 500 ''Claude API error'')"
    by (simp add: first_run_world rerun_env_def analyze_500)
  from completed_articles_hold_results [of rerun_env first_run "analysed ''completed'' row_a"
      "''id+''" "analysed ''completed'' row_a" "HTTPException 500 ''Claude API error''"
      sample_request 0 1700000] r m s f c
  show ?thesis by blast
qed

text \<open>The theorem at an analysis that took 1.7 seconds.\<close>

theorem processing_times_differ_witness:
  "find (\<lambda>a. Article.id a = ''id+'') (articles (demo_world 0 row_a row_b 0)) = Some row_a \<and>
   post (sample_env [good_reply]) (sent (demo_world 0 row_a row_b 0))
     = Response 200 (envelope good_text) \<and>
   \<not> json_decode_error (sample_env [good_reply]) (envelope good_text) \<and>
   fst (analyze_article (sample_env [good_reply]) (demo_world 0 row_a row_b 0) ''id+''
          sample_request 0 1700000) = Inr good_result \<and>
   AnalysisResult.processing_time good_result = 2.5 \<and>
   (\<exists>a. find (\<lambda>a. Article.id a = ''id+'')
           (articles (snd (analyze_article (sample_env [good_reply]) (demo_world 0 row_a row_b 0)
                             ''id+'' sample_request 0 1700000))) = Some a \<and>
        Article.status a = ''completed'' \<and>
        Article.processing_time a = Some 1.7 \<and>
        Article.processing_time a \<noteq> Some (AnalysisResult.processing_time good_result))"
proof -
  let ?E = "sample_env [good_reply]" and ?w = "demo_world 0 row_a row_b 0"
  have f: "find (\<lambda>a. Article.id a = ''id+'') (articles ?w) = Some row_a"
    by simp
  have p: "post ?E (sent ?w) = Response 200 (envelope good_text)"
    by (simp add: good_reply_def)
  have u: "\<not> json_decode_error ?E (envelope good_text)"
    by (simp add: json_decode_error_def sample_response_good sample_loads_good)
  have c: "analyze_with_claude ?E (sent ?w) (Article.to_url row_a) (Article.main_kw row_a)
             = (Inr good_result, Suc 0)"
    by (simp add: analyze_good_reply)
  have q: "find (\<lambda>p. Project.id p = Article.project_id row_a) (projects ?w)
             = Some (demo_project 0)"
    by simp
  have r: "fst (analyze_article ?E ?w ''id+'' sample_request 0 1700000) = Inr good_result"
    by (simp add: analyze_article_success [OF f c q])
  have d: "(1700000 :: int) - 0 \<noteq> 2500000"
    by simp
  from processing_times_differ [OF f p u r] obtain a where
    a: "find (\<lambda>a. Article.id a = ''id+'')
           (articles (snd (analyze_article ?E ?w ''id+'' sample_request 0 1700000))) = Some a"
      "Article.status a = ''completed''"
      "Article.processing_time a = Some (real_of_int (1700000 - 0) / 1000000)"
      "(Article.processing_time a = Some (AnalysisResult.processing_time good_result))
         = ((1700000 :: int) - 0 = 2500000)"
    and t: "AnalysisResult.processing_time good_result = 2.5"
    by blast
  from a(3) have "Article.processing_time a = Some 1.7"
    by simp
  moreover from a(4) d have "Article.processing_time a
      \<noteq> Some (AnalysisResult.processing_time good_result)"
    by blast
  ultimately show ?thesis using f p u r t a(1,2)
    by blast
qed

text \<open>The theorem at a project whose first article failed after a completed analysis and
  whose second article is completed: only the second is exported.\<close>

theorem export_flattens_completed_articles_witness:
  "Article.analysis_results (analysed ''error'' row_a) = Some good_stored \<and>
   Article.analysis_results (analysed ''completed'' row_b) = Some good_stored \<and>
   json_loads (sample_env []) good_stored = Inr (result_dict good_result) \<and>
   export_results (sample_env [])
     (demo_world 1 (analysed ''error'' row_a) (analysed ''completed'' row_b) 3) ''id'' =
     (Inr \<lparr>results = [export_row_of (analysed ''completed'' row_b) good_opportunity],
           total_opportunities = 1\<rparr>,
      demo_world 1 (analysed ''error'' row_a) (analysed ''completed'' row_b) 3)"
proof -
  let ?w = "demo_world 1 (analysed ''error'' row_a) (analysed ''completed'' row_b) 3"
  have h: "\<forall>a\<in>set (articles ?w).
      Article.project_id a = ''id'' \<and> Article.status a = ''completed'' \<longrightarrow>
      (\<exists>s. Article.analysis_results a = Some s \<and> s \<noteq> [] \<and>
           json_loads (sample_env []) s = Inr (result_dict ((\<lambda>_. good_result) a)))"
    by (simp add: analysed_def sample_loads_stored) (simp add: good_stored_def)
  from export_flattens_completed_articles [OF h] obtain xs rs where
    m: "mset xs = mset (filter (\<lambda>a. Article.project_id a = ''id'' \<and>
                                       Article.status a = ''completed'') (articles ?w))"
    and rs: "rs = concat (map (\<lambda>a. map (export_row_of a) (opportunities good_result)) xs)"
    and e: "export_results (sample_env []) ?w ''id'' =
             (Inr \<lparr>results = rs, total_opportunities = int (length rs)\<rparr>, ?w)"
    by blast
  from m have "mset xs = {#analysed ''completed'' row_b#}"
    by simp
  then have "xs = [analysed ''completed'' row_b]"
    by (simp add: mset_single_iff_right)
  with rs e show ?thesis
    by (simp add: good_result_def analysed_def sample_loads_stored)
qed

end
